theory Spec2Isabelle
  imports Main
begin

section \<open>JavaScript values\<close>

text \<open>
  Strings are byte sequences (the UTF-8 form of the JavaScript string). A value parsed
  from a response body is a \<open>json\<close>; \<open>undefined\<close>, which only a property read can
  produce, is \<open>None\<close> of \<open>json option\<close>. Numbers are the integers the backend sends
  (ids, counts); an object is the list of its own properties.
\<close>

datatype json =
    JNull
  | JBool bool
  | JNum int
  | JStr string
  | JArr "json list"
  | JObj "(string \<times> json) list"

text \<open>What a rejected promise, or a \<open>throw\<close>, carries. The messages of the errors the
  engine raises itself (\<open>SyntaxError\<close> of \<open>JSON.parse\<close>, \<open>TypeError\<close> of a property
  read on \<open>null\<close> or of a failed \<open>fetch\<close>, \<open>SecurityError\<close> of the history interface) and
  of the error React throws for a child it cannot render are not represented.\<close>

datatype js_error = Error string | SyntaxError | TypeError | SecurityError | ReactError

fun truthy :: "json option \<Rightarrow> bool" where
  "truthy None = False"
| "truthy (Some JNull) = False"
| "truthy (Some (JBool b)) = b"
| "truthy (Some (JNum n)) = (n \<noteq> 0)"
| "truthy (Some (JStr s)) = (s \<noteq> [])"
| "truthy (Some (JArr xs)) = True"
| "truthy (Some (JObj kvs)) = True"

text \<open>\<open>a || b\<close> on values, and on the \<open>string | undefined\<close> that \<open>getParam\<close> returns.\<close>

definition js_or :: "json option \<Rightarrow> json option \<Rightarrow> json option" where
  "js_or a b = (if truthy a then a else b)"

definition or_default :: "string option \<Rightarrow> string \<Rightarrow> string" where
  "or_default a d = (case a of None \<Rightarrow> d | Some s \<Rightarrow> (if s = [] then d else s))"

text \<open>\<open>x?.name\<close>: \<open>undefined\<close> for \<open>undefined\<close> and \<open>null\<close>; an own property of an
  object; \<open>undefined\<close> on every other value (the names read by this program,
  \<open>detail\<close>, \<open>job_id\<close> and \<open>jobs\<close>, are no built-in property of a string, number,
  boolean or array).\<close>

fun opt_prop :: "json option \<Rightarrow> string \<Rightarrow> json option" where
  "opt_prop (Some (JObj kvs)) name = map_of kvs name"
| "opt_prop _ name = None"

text \<open>\<open>x.name\<close> without the \<open>?\<close>: reading a property of \<open>null\<close> throws.\<close>

fun read_prop :: "json \<Rightarrow> string \<Rightarrow> js_error + json option" where
  "read_prop JNull name = Inl TypeError"
| "read_prop j name = Inr (opt_prop (Some j) name)"

definition digit_char :: "nat \<Rightarrow> char" where
  "digit_char n = char_of (48 + n)"

function dec :: "nat \<Rightarrow> string" where
  "dec n = (if n < 10 then [digit_char n] else dec (n div 10) @ [digit_char (n mod 10)])"
  by pat_completeness auto
termination
  by (relation "measure id") auto

definition dec_int :: "int \<Rightarrow> string" where
  "dec_int i = (if i < 0 then CHR ''-'' # dec (nat (- i)) else dec (nat i))"

fun join_with :: "char \<Rightarrow> string list \<Rightarrow> string" where
  "join_with d [] = []"
| "join_with d [x] = x"
| "join_with d (x # y # ys) = x @ d # join_with d (y # ys)"

text \<open>The string a template literal \<open>`${x}`\<close> inserts for a value. An array is joined
  with commas, \<open>null\<close> elements giving the empty string; a parsed object converts to
  \<open>[object Object]\<close> (an object whose body shadows \<open>toString\<close> is not modelled).\<close>

fun to_string :: "json \<Rightarrow> string" where
  "to_string JNull = ''null''"
| "to_string (JBool b) = (if b then ''true'' else ''false'')"
| "to_string (JNum n) = dec_int n"
| "to_string (JStr s) = s"
| "to_string (JArr xs) =
     join_with CHR '','' (map (\<lambda>x. if x = JNull then [] else to_string x) xs)"
| "to_string (JObj kvs) = ''[object Object]''"

definition template :: "json option \<Rightarrow> string" where
  "template v = (case v of None \<Rightarrow> ''undefined'' | Some j \<Rightarrow> to_string j)"

text \<open>\<open>s.replace(pat, rep)\<close> with a string pattern replaces the first occurrence.\<close>

fun replace_first :: "string \<Rightarrow> string \<Rightarrow> string \<Rightarrow> string" where
  "replace_first pat rep [] = (if pat = [] then rep else [])"
| "replace_first pat rep (c # cs) =
     (if take (length pat) (c # cs) = pat then rep @ drop (length pat) (c # cs)
      else c # replace_first pat rep cs)"

section \<open>The query string: \<open>URLSearchParams\<close>\<close>

text \<open>
  The serializer and parser of \<open>application/x-www-form-urlencoded\<close>, which
  \<open>URLSearchParams.toString\<close> and \<open>new URLSearchParams(text)\<close> run. A byte is written
  as itself when it is an ASCII letter or digit or one of \<open>* - . _\<close>, a space as
  \<open>+\<close>, every other byte as \<open>%XX\<close>.
\<close>

definition form_safe :: "char \<Rightarrow> bool" where
  "form_safe c =
     (let n = (of_char c :: nat)
      in (48 \<le> n \<and> n \<le> 57) \<or> (65 \<le> n \<and> n \<le> 90) \<or> (97 \<le> n \<and> n \<le> 122)
         \<or> c = CHR ''*'' \<or> c = CHR ''-'' \<or> c = CHR ''.'' \<or> c = CHR ''_'')"

definition hex_digit :: "nat \<Rightarrow> char" where
  "hex_digit n = (if n < 10 then char_of (48 + n) else char_of (55 + n))"

definition hex_value :: "char \<Rightarrow> nat option" where
  "hex_value c =
     (let n = (of_char c :: nat)
      in if 48 \<le> n \<and> n \<le> 57 then Some (n - 48)
         else if 65 \<le> n \<and> n \<le> 70 then Some (n - 55)
         else if 97 \<le> n \<and> n \<le> 102 then Some (n - 87)
         else None)"

definition form_encode_byte :: "char \<Rightarrow> string" where
  "form_encode_byte c =
     (if c = CHR '' '' then ''+''
      else if form_safe c then [c]
      else [CHR ''%'', hex_digit (of_char c div 16), hex_digit (of_char c mod 16)])"

definition form_encode :: "string \<Rightarrow> string" where
  "form_encode s = concat (map form_encode_byte s)"

fun percent_decode :: "string \<Rightarrow> string" where
  "percent_decode [] = []"
| "percent_decode (c # cs) =
     (if c = CHR ''%'' then
        (case cs of
           a # b # rest \<Rightarrow>
             (case (hex_value a, hex_value b) of
                (Some x, Some y) \<Rightarrow> char_of (16 * x + y) # percent_decode rest
              | _ \<Rightarrow> c # percent_decode cs)
         | _ \<Rightarrow> c # percent_decode cs)
      else c # percent_decode cs)"

definition plus_to_space :: "string \<Rightarrow> string" where
  "plus_to_space s = map (\<lambda>c. if c = CHR ''+'' then CHR '' '' else c) s"

fun split_on :: "char \<Rightarrow> string \<Rightarrow> string list" where
  "split_on d [] = [[]]"
| "split_on d (c # cs) =
     (if c = d then [] # split_on d cs
      else (case split_on d cs of
              [] \<Rightarrow> [[c]]
            | x # xs \<Rightarrow> (c # x) # xs))"

text \<open>One \<open>&\<close>-separated piece: the name runs to the first \<open>=\<close>, the value is the
  rest (empty when there is no \<open>=\<close>); both are decoded. Nothing is rejected.\<close>

definition parse_pair :: "string \<Rightarrow> string \<times> string" where
  "parse_pair bytes =
     (let name = takeWhile (\<lambda>c. c \<noteq> CHR ''='') bytes;
          val = drop 1 (dropWhile (\<lambda>c. c \<noteq> CHR ''='') bytes)
      in (percent_decode (plus_to_space name), percent_decode (plus_to_space val)))"

type_synonym query = "(string \<times> string) list"

definition form_parse :: "string \<Rightarrow> query" where
  "form_parse s = map parse_pair (filter (\<lambda>b. b \<noteq> []) (split_on CHR ''&'' s))"

definition usp_toString :: "query \<Rightarrow> string" where
  "usp_toString qs =
     join_with CHR ''&'' (map (\<lambda>(n, v). form_encode n @ CHR ''='' # form_encode v) qs)"

text \<open>\<open>new URLSearchParams(text)\<close> drops one leading \<open>?\<close>.\<close>

definition usp_new :: "string \<Rightarrow> query" where
  "usp_new init =
     form_parse (case init of [] \<Rightarrow> [] | c # cs \<Rightarrow> (if c = CHR ''?'' then cs else init))"

text \<open>\<open>get\<close> returns the value of the first pair of that name (\<open>null\<close> when there is
  none), \<open>delete\<close> removes every pair of that name, \<open>set\<close> overwrites the first pair of
  that name and removes the others, or appends a pair when there is none.\<close>

definition usp_get :: "string \<Rightarrow> query \<Rightarrow> string option" where
  "usp_get name qs = map_of qs name"

definition usp_delete :: "string \<Rightarrow> query \<Rightarrow> query" where
  "usp_delete name qs = filter (\<lambda>p. fst p \<noteq> name) qs"

fun usp_set :: "string \<Rightarrow> string \<Rightarrow> query \<Rightarrow> query" where
  "usp_set name v [] = [(name, v)]"
| "usp_set name v (p # qs) =
     (if fst p = name then (name, v) # usp_delete name qs else p # usp_set name v qs)"


section \<open>The address bar and the history stack\<close>

text \<open>
  \<open>window.location\<close> of an http page: \<open>host\<close> is the host (with its port) of the page,
  \<open>pathname\<close> begins with \<open>/\<close>, \<open>search\<close> is empty or begins with \<open>?\<close>, \<open>hash\<close> is
  empty or begins with \<open>#\<close>. The session history is the entries behind the current one
  (nearest first), the current entry, and the entries ahead of it.
\<close>

record location =
  host :: string
  pathname :: string
  search :: string
  hash :: string

record browser =
  behind :: "location list"
  current :: location
  ahead :: "location list"

text \<open>The \<open>search\<close> of a URL whose query is \<open>q\<close>: an empty query reads back as the
  empty string.\<close>

definition search_text :: "string \<Rightarrow> string" where
  "search_text q = (if q = [] then [] else CHR ''?'' # q)"

text \<open>
  What \<open>pushState\<close> and \<open>replaceState\<close> make of the URL text
  \<open>`${path}?${query}${fragment}`\<close>, which they parse against the URL of the page
  \<open>base\<close>. A text that begins with \<open>//\<close> is not a path: what follows the slashes, up
  to the next \<open>/\<close>, is read as a host, and the rest as the path. The browser accepts only
  a URL of the page's own origin and throws \<open>SecurityError\<close> otherwise (the host is
  compared as written).
\<close>

definition double_slash :: "string \<Rightarrow> bool" where
  "double_slash p = (take 2 p = ''//'')"

definition url_text :: "location \<Rightarrow> string \<Rightarrow> string \<Rightarrow> string \<Rightarrow> js_error + location" where
  "url_text base path q fragment =
     (if double_slash path then
        (let rest = dropWhile (\<lambda>c. c = CHR ''/'') path;
             authority = takeWhile (\<lambda>c. c \<noteq> CHR ''/'') rest;
             path' = dropWhile (\<lambda>c. c \<noteq> CHR ''/'') rest
         in if authority = host base
            then Inr \<lparr>host = host base, pathname = (if path' = [] then ''/'' else path'),
                      search = search_text q, hash = fragment\<rparr>
            else Inl SecurityError)
      else Inr \<lparr>host = host base, pathname = path, search = search_text q, hash = fragment\<rparr>)"

text \<open>With an accepted URL, \<open>history.pushState\<close> adds an entry after the current one and
  drops the entries ahead; \<open>history.replaceState\<close> overwrites the current entry.\<close>

definition pushState :: "location \<Rightarrow> browser \<Rightarrow> browser" where
  "pushState url b = \<lparr>behind = current b # behind b, current = url, ahead = []\<rparr>"

definition replaceState :: "location \<Rightarrow> browser \<Rightarrow> browser" where
  "replaceState url b = b\<lparr>current := url\<rparr>"

definition history_length :: "browser \<Rightarrow> nat" where
  "history_length b = length (behind b) + 1 + length (ahead b)"

section \<open>lib/url.ts\<close>

definition getQuery :: "browser \<Rightarrow> query" where
  "getQuery b = usp_new (search (current b))"

text \<open>One iteration of the loop of \<open>setQuery\<close> over \<open>Object.entries(updates)\<close>;
  \<open>None\<close> is \<open>undefined\<close> (or \<open>null\<close>).\<close>

definition apply_update :: "string \<times> string option \<Rightarrow> query \<Rightarrow> query" where
  "apply_update kv qs =
     (case snd kv of
        None \<Rightarrow> usp_delete (fst kv) qs
      | Some v \<Rightarrow> (if v = [] then usp_delete (fst kv) qs else usp_set (fst kv) v qs))"

text \<open>\<open>setQuery\<close> throws what \<open>pushState\<close> throws, and then nothing has been written.\<close>

definition setQuery :: "(string \<times> string option) list \<Rightarrow> browser \<Rightarrow> js_error + browser" where
  "setQuery updates b =
     (let qs = fold apply_update updates (getQuery b)
      in case url_text (current b) (pathname (current b)) (usp_toString qs) (hash (current b)) of
           Inl err \<Rightarrow> Inl err
         | Inr url \<Rightarrow> Inr (pushState url b))"

definition getParam :: "string \<Rightarrow> browser \<Rightarrow> string option" where
  "getParam name b = usp_get name (getQuery b)"

section \<open>Live log buffer (App.tsx, \<open>run\<close>: the \<open>ws.onmessage\<close> handler)\<close>

text \<open>
  \<^verbatim>\<open>ws.onmessage = (ev)=> setLogs(prev=> [...prev, ev.data as string].slice(-2000));\<close>

  \<open>Array.prototype.slice(start)\<close>: a negative \<open>start\<close> counts from the end
  (\<open>max (len + start) 0\<close>), a non-negative one is clamped to the length; the result
  runs from there to the end of the array.
\<close>

definition js_slice :: "int \<Rightarrow> 'a list \<Rightarrow> 'a list" where
  "js_slice start xs =
     (let len = int (length xs);
          k = (if start < 0 then max (len + start) 0 else min start len)
      in drop (nat k) xs)"

definition onmessage :: "string list \<Rightarrow> string \<Rightarrow> string list" where
  "onmessage prev data = js_slice (- 2000) (prev @ [data])"

text \<open>The buffer after a stream has delivered \<open>lines\<close>, in order, to a buffer \<open>prev\<close>:
  React applies the queued updater functions in the order of the calls.\<close>

definition deliver :: "string list \<Rightarrow> string list \<Rightarrow> string list" where
  "deliver prev lines = foldl onmessage prev lines"

section \<open>The network\<close>

record request =
  req_url :: string
  req_method :: string
  req_headers :: "(string \<times> string) list"
  req_body :: "json option"

text \<open>A response: its status, its status text, and the value its body parses to
  (\<open>None\<close> when the body is not JSON, so that \<open>r.json()\<close> rejects).\<close>

record response =
  status :: nat
  statusText :: string
  parsed :: "json option"

definition ok :: "response \<Rightarrow> bool" where
  "ok r = (200 \<le> status r \<and> status r \<le> 299)"

definition json_of :: "response \<Rightarrow> js_error + json" where
  "json_of r = (case parsed r of None \<Rightarrow> Inl SyntaxError | Some j \<Rightarrow> Inr j)"

text \<open>
  What the program cannot see: the build-time \<open>VITE_API_BASE\<close> (with its default) and the
  backend, which answers a request knowing the requests sent before it; a request the
  network drops is answered by \<open>Inl\<close>, the rejection of \<open>fetch\<close>.
\<close>

record env =
  api_base :: string
  server :: "request list \<Rightarrow> request \<Rightarrow> js_error + response"

text \<open>A WebSocket the program created, and whether it is still connecting or open.\<close>

record websocket =
  ws_url :: string
  ws_live :: bool

text \<open>What the browser holds besides the page: \<open>localStorage\<close>, the requests sent so
  far, the sockets created so far, the period of the interval timer (if one is set), and
  what the browser has reported on the console.\<close>

record world =
  storage :: "string \<rightharpoonup> string"
  sent :: "request list"
  sockets :: "websocket list"
  timer :: "nat option"
  console :: "js_error list"

definition getItem :: "string \<Rightarrow> world \<Rightarrow> string option" where
  "getItem key w = storage w key"

definition fetch :: "env \<Rightarrow> request \<Rightarrow> world \<Rightarrow> (js_error + response) \<times> world" where
  "fetch e req w = (server e (sent w) req, w\<lparr>sent := sent w @ [req]\<rparr>)"

text \<open>\<open>Headers.set\<close>: overwrite the header of that name, or add it (names are
  compared as the program writes them; it spells each header one way).\<close>

definition headers_set :: "string \<Rightarrow> string \<Rightarrow> (string \<times> string) list \<Rightarrow> (string \<times> string) list" where
  "headers_set name v hs = usp_set name v hs"

section \<open>lib/api.ts\<close>

record init =
  init_method :: string
  init_headers :: "(string \<times> string) list"
  init_body :: "json option"

definition no_init :: init where
  "no_init = \<lparr>init_method = ''GET'', init_headers = [], init_body = None\<rparr>"

text \<open>\<open>apiFetch\<close> first builds what it hands to \<open>fetch\<close>: the \<open>url\<close>, and \<open>init\<close>
  with its headers replaced by a copy that carries \<open>X-API-Key\<close> when the stored key is
  not empty.\<close>

definition api_request :: "string \<Rightarrow> init \<Rightarrow> world \<Rightarrow> request" where
  "api_request url i w =
     (let key = or_default (getItem ''chiss_api_key'' w) [];
          headers = init_headers i;
          headers = (if key \<noteq> [] then headers_set ''X-API-Key'' key headers else headers)
      in \<lparr>req_url = url, req_method = init_method i, req_headers = headers,
          req_body = init_body i\<rparr>)"

definition apiFetch :: "env \<Rightarrow> string \<Rightarrow> init \<Rightarrow> world \<Rightarrow> (js_error + response) \<times> world" where
  "apiFetch e url i w = fetch e (api_request url i w) w"

text \<open>The second argument of \<open>apiFetch\<close> in \<open>startJob\<close>; the body
  \<open>JSON.stringify({job_type, params})\<close> is kept as the value it encodes.\<close>

definition startJob_init :: "string \<Rightarrow> (string \<times> string) list \<Rightarrow> init" where
  "startJob_init job_type params =
     \<lparr>init_method = ''POST'',
      init_headers = [(''Content-Type'', ''application/json'')],
      init_body = Some (JObj [(''job_type'', JStr job_type),
                              (''params'', JObj (map (\<lambda>(k, v). (k, JStr v)) params))])\<rparr>"

definition startJob :: "env \<Rightarrow> string \<Rightarrow> (string \<times> string) list \<Rightarrow> world \<Rightarrow> (js_error + json) \<times> world" where
  "startJob e job_type params w =
     (case apiFetch e (api_base e @ ''/api/jobs'') (startJob_init job_type params) w of
        (Inl err, w') \<Rightarrow> (Inl err, w')
      | (Inr r, w') \<Rightarrow>
          if status r = 409 then
            (case json_of r of
               Inl err \<Rightarrow> (Inl err, w')
             | Inr body \<Rightarrow>
                 (Inl (Error (''Duplicate running job (id=''
                        @ template (js_or (opt_prop (opt_prop (Some body) ''detail'') ''job_id'')
                                          (Some (JStr ''?'')))
                        @ '')'')), w'))
          else if \<not> ok r then (Inl (Error (''startJob failed: '' @ dec (status r))), w')
          else (json_of r, w'))"

definition listJobs :: "env \<Rightarrow> world \<Rightarrow> (js_error + json option) \<times> world" where
  "listJobs e w =
     (case apiFetch e (api_base e @ ''/api/jobs'') no_init w of
        (Inl err, w') \<Rightarrow> (Inl err, w')
      | (Inr r, w') \<Rightarrow>
          if \<not> ok r then (Inl (Error ''listJobs failed''), w')
          else (case json_of r of
                  Inl err \<Rightarrow> (Inl err, w')
                | Inr j \<Rightarrow> (read_prop j ''jobs'', w')))"

definition logsSocket :: "env \<Rightarrow> string \<Rightarrow> world \<Rightarrow> websocket \<times> world" where
  "logsSocket e job_id w =
     (let url = replace_first ''http'' ''ws'' (api_base e) @ ''/api/jobs/'' @ job_id @ ''/logs'';
          ws = \<lparr>ws_url = url, ws_live = True\<rparr>
      in (ws, w\<lparr>sockets := sockets w @ [ws]\<rparr>))"

definition orchStats :: "env \<Rightarrow> world \<Rightarrow> (js_error + json) \<times> world" where
  "orchStats e w =
     (case apiFetch e (api_base e @ ''/api/orchestrator/stats'') no_init w of
        (Inl err, w') \<Rightarrow> (Inl err, w')
      | (Inr r, w') \<Rightarrow>
          if \<not> ok r then (Inl (Error ''stats failed''), w')
          else (json_of r, w'))"

section \<open>App.tsx\<close>

text \<open>The React state of \<open>App\<close>. \<open>jobs\<close> holds whatever \<open>listJobs\<close> returned, which is
  \<open>undefined\<close> (\<open>None\<close>) when the body had no \<open>jobs\<close> property.\<close>

record ui =
  jobs :: "json option"
  active :: json
  logs :: "string list"
  stats :: json
  tab :: string

definition initial_ui :: ui where
  "initial_ui = \<lparr>jobs = Some (JArr []), active = JNull, logs = [], stats = JNull,
                  tab = ''discoveries''\<rparr>"

text \<open>An asynchronous function is run to its end in one step: its outcome (\<open>Inl\<close> for a
  rejected promise), and the state it leaves.\<close>

definition refresh :: "env \<Rightarrow> ui \<times> world \<Rightarrow> (js_error + unit) \<times> ui \<times> world" where
  "refresh e s =
     (case listJobs e (snd s) of
        (Inl err, w') \<Rightarrow> (Inl err, fst s, w')
      | (Inr js, w') \<Rightarrow> (Inr (), (fst s)\<lparr>jobs := js\<rparr>, w'))"

text \<open>The callback of \<open>setInterval\<close>:
  \<^verbatim>\<open>async ()=>{ await refresh(); try{ setStats(await orchStats()); }catch{} }\<close>\<close>

definition tick :: "env \<Rightarrow> ui \<times> world \<Rightarrow> (js_error + unit) \<times> ui \<times> world" where
  "tick e s =
     (case refresh e s of
        (Inl err, u, w) \<Rightarrow> (Inl err, u, w)
      | (Inr _, u, w) \<Rightarrow>
          (case orchStats e w of
             (Inl err, w') \<Rightarrow> (Inr (), u, w')
           | (Inr st, w') \<Rightarrow> (Inr (), u\<lparr>stats := st\<rparr>, w')))"

text \<open>
  What \<open>App\<close> renders of its state. Rendering throws \<open>TypeError\<close> where the JSX
  reads a property of \<open>undefined\<close> or \<open>null\<close> or calls what is no function:
  \<open>stats.running.length\<close> (under \<open>stats &&\<close>), \<open>jobs.map\<close>, and in each row
  \<open>j.job_id.slice(0,22)\<close>. React itself throws (\<open>ReactError\<close>) when a child of an
  element is a plain object; an array is a valid child when its members are.
\<close>

fun valid_child :: "json \<Rightarrow> bool" where
  "valid_child (JObj kvs) = False"
| "valid_child (JArr xs) = (\<forall>x \<in> set xs. valid_child x)"
| "valid_child j = True"

definition child_ok :: "json option \<Rightarrow> bool" where
  "child_ok v = (case v of None \<Rightarrow> True | Some j \<Rightarrow> valid_child j)"

text \<open>\<open>x.length\<close> of a value that is neither \<open>undefined\<close> nor \<open>null\<close> (for a string
  the count is of bytes here; only its being a number matters below).\<close>

fun js_length :: "json \<Rightarrow> json option" where
  "js_length (JArr xs) = Some (JNum (int (length xs)))"
| "js_length (JStr s) = Some (JNum (int (length s)))"
| "js_length (JObj kvs) = map_of kvs ''length''"
| "js_length j = None"

definition stats_throws :: "json \<Rightarrow> bool" where
  "stats_throws st =
     (truthy (Some st) \<and>
      (case opt_prop (Some st) ''running'' of None \<Rightarrow> True | Some JNull \<Rightarrow> True | Some r \<Rightarrow> False))"

definition stats_children_ok :: "json \<Rightarrow> bool" where
  "stats_children_ok st =
     (\<not> truthy (Some st) \<or>
      (child_ok (opt_prop (Some st) ''queue_depth'')
       \<and> child_ok (case opt_prop (Some st) ''running'' of None \<Rightarrow> None | Some r \<Rightarrow> js_length r)
       \<and> child_ok (opt_prop (Some st) ''concurrency'')))"

text \<open>One row of the job table: \<open>slice\<close> is a method of strings and of arrays only.\<close>

definition row_throws :: "json \<Rightarrow> bool" where
  "row_throws j =
     (case read_prop j ''job_id'' of
        Inl err \<Rightarrow> True
      | Inr v \<Rightarrow> (case v of Some (JStr s) \<Rightarrow> False | Some (JArr xs) \<Rightarrow> False | _ \<Rightarrow> True))"

definition row_children_ok :: "json \<Rightarrow> bool" where
  "row_children_ok j =
     ((case opt_prop (Some j) ''job_id'' of
         Some (JArr xs) \<Rightarrow> (\<forall>x \<in> set (take 22 xs). valid_child x)
       | _ \<Rightarrow> True)
      \<and> child_ok (opt_prop (Some j) ''job_type'')
      \<and> child_ok (opt_prop (Some j) ''state''))"

definition jobs_throws :: "json option \<Rightarrow> bool" where
  "jobs_throws js = (case js of Some (JArr xs) \<Rightarrow> (\<exists>j \<in> set xs. row_throws j) | _ \<Rightarrow> True)"

definition jobs_children_ok :: "json option \<Rightarrow> bool" where
  "jobs_children_ok js =
     (case js of Some (JArr xs) \<Rightarrow> (\<forall>j \<in> set xs. row_children_ok j) | _ \<Rightarrow> True)"

definition render :: "ui \<Rightarrow> js_error + unit" where
  "render u =
     (if stats_throws (stats u) \<or> jobs_throws (jobs u) then Inl TypeError
      else if stats_children_ok (stats u) \<and> jobs_children_ok (jobs u) then Inr ()
      else Inl ReactError)"

text \<open>
  The page is mounted exactly while its interval timer is set: the polling effect sets
  the timer when \<open>App\<close> mounts and its cleanup clears it when \<open>App\<close> unmounts. \<open>App\<close> has
  no error boundary, so an error thrown while it renders makes React unmount it; the
  browser reports the error.
\<close>

definition mounted :: "world \<Rightarrow> bool" where
  "mounted w = (timer w \<noteq> None)"

definition unmount_poller :: "world \<Rightarrow> world" where
  "unmount_poller w = w\<lparr>timer := None\<rparr>"

definition crash :: "js_error \<Rightarrow> world \<Rightarrow> world" where
  "crash err w = unmount_poller (w\<lparr>console := console w @ [err]\<rparr>)"

text \<open>The polling effect: \<open>refresh()\<close> once, not awaited (a rejection of it is one
  nobody handles, which the browser reports on the console), then
  \<open>setInterval(\<dots>, 2000)\<close>; its cleanup is \<open>clearInterval\<close>. When the refresh has set the
  job list, \<open>App\<close> renders again.\<close>

definition mount_poller :: "env \<Rightarrow> ui \<times> world \<Rightarrow> ui \<times> world" where
  "mount_poller e s =
     (case refresh e s of
        (Inl err, u, w) \<Rightarrow> (u, w\<lparr>timer := Some 2000, console := console w @ [err]\<rparr>)
      | (Inr _, u, w) \<Rightarrow>
          (case render u of
             Inl err \<Rightarrow> (u, crash err (w\<lparr>timer := Some 2000\<rparr>))
           | Inr _ \<Rightarrow> (u, w\<lparr>timer := Some 2000\<rparr>)))"

text \<open>The renders a tick causes: one after \<open>setJobs\<close> and, if that one succeeds and the
  statistics arrive, one after \<open>setStats\<close>. A tick that sets no state causes none.\<close>

definition tick_render :: "env \<Rightarrow> ui \<times> world \<Rightarrow> js_error + unit" where
  "tick_render e s =
     (case refresh e s of
        (Inl err, u, w) \<Rightarrow> Inr ()
      | (Inr _, u, w) \<Rightarrow>
          (case render u of
             Inl err \<Rightarrow> Inl err
           | Inr _ \<Rightarrow>
               (case orchStats e w of
                  (Inl err, w') \<Rightarrow> Inr ()
                | (Inr st, w') \<Rightarrow> render (u\<lparr>stats := st\<rparr>))))"

text \<open>The timer fires: the browser calls the callback and drops the promise it returns;
  a rejection nobody handles is what the browser reports on the console. A render that
  throws unmounts the page.\<close>

definition fire_timer :: "env \<Rightarrow> ui \<times> world \<Rightarrow> ui \<times> world" where
  "fire_timer e s =
     (if \<not> mounted (snd s) then s
      else (case tick e s of
              (r, u, w) \<Rightarrow>
                (let w1 = (case r of Inl err \<Rightarrow> w\<lparr>console := console w @ [err]\<rparr> | Inr _ \<Rightarrow> w)
                 in case tick_render e s of
                      Inl err \<Rightarrow> (u, crash err w1)
                    | Inr _ \<Rightarrow> (u, w1))))"


text \<open>The \<open>setQuery\<close> local to \<open>App\<close>, which the tab buttons call. It starts from the
  absolute \<open>window.location.href\<close>, so the URL it pushes is always the page's own.
  \<open>url.searchParams\<close> rewrites the query of \<open>url\<close> at each \<open>set\<close>, so with no entry the
  URL text stays as it is.\<close>

definition App_setQuery :: "(string \<times> string) list \<Rightarrow> browser \<times> ui \<Rightarrow> browser \<times> ui" where
  "App_setQuery params s =
     (let b = fst s;
          url = (if params = [] then current b
                 else (current b)\<lparr>search := search_text
                        (usp_toString (fold (\<lambda>kv. usp_set (fst kv) (snd kv)) params (getQuery b)))\<rparr>)
      in (pushState url b, (snd s)\<lparr>tab := or_default (map_of params ''tab'') ''reliability''\<rparr>))"

text \<open>The effect that normalizes the URL on load (its \<open>setTimeout\<close> only scrolls). It
  throws what \<open>replaceState\<close> throws.\<close>

definition normalize_url :: "browser \<Rightarrow> js_error + browser" where
  "normalize_url b =
     (let tab = getParam ''tab'' b;
          star = getParam ''star'' b;
          phase = getParam ''phase'' b
      in if or_default star [] \<noteq> [] \<and> phase = Some ''true'' then
           (let params = usp_new (search (current b));
                params = usp_set ''star'' (or_default star []) params;
                params = usp_set ''phase'' ''true'' params;
                params = usp_set ''tab'' (or_default tab ''workbench'') params
            in case url_text (current b) (pathname (current b)) (usp_toString params)
                      (hash (current b)) of
                 Inl err \<Rightarrow> Inl err
               | Inr url \<Rightarrow> Inr (replaceState url b))
         else Inr b)"

text \<open>\<open>run\<close>: \<open>j.job_id\<close> throws when \<open>j\<close> is \<open>null\<close>, after the two state updates.\<close>

definition run :: "env \<Rightarrow> string \<Rightarrow> (string \<times> string) list \<Rightarrow> ui \<times> world \<Rightarrow> (js_error + unit) \<times> ui \<times> world" where
  "run e job_type params s =
     (case startJob e job_type params (snd s) of
        (Inl err, w) \<Rightarrow> (Inl err, fst s, w)
      | (Inr j, w) \<Rightarrow>
          (let u = (fst s)\<lparr>active := j, logs := []\<rparr>
           in case read_prop j ''job_id'' of
                Inl err \<Rightarrow> (Inl err, u, w)
              | Inr job_id \<Rightarrow> (Inr (), u, snd (logsSocket e (template job_id) w))))"

text \<open>The two handlers \<open>run\<close> installs on the socket.\<close>

definition ws_onmessage :: "string \<Rightarrow> ui \<Rightarrow> ui" where
  "ws_onmessage data u = u\<lparr>logs := onmessage (logs u) data\<rparr>"

definition ws_onclose :: "env \<Rightarrow> ui \<times> world \<Rightarrow> (js_error + unit) \<times> ui \<times> world" where
  "ws_onclose e s = refresh e s"

text \<open>What can happen to the mounted page: a click on a run button, a message or the
  close of the \<open>i\<close>-th socket created (only a live socket has events), the timer.\<close>

datatype event =
    Click_run string "(string \<times> string) list"
  | Ws_message nat string
  | Ws_close nat
  | Timer

definition is_live :: "nat \<Rightarrow> world \<Rightarrow> bool" where
  "is_live i w = (i < length (sockets w) \<and> ws_live (sockets w ! i))"

definition live_sockets :: "world \<Rightarrow> websocket list" where
  "live_sockets w = filter ws_live (sockets w)"

fun step :: "env \<Rightarrow> event \<Rightarrow> ui \<times> world \<Rightarrow> ui \<times> world" where
  "step e (Click_run job_type params) s = snd (run e job_type params s)"
| "step e (Ws_message i data) s =
     (if is_live i (snd s) then (ws_onmessage data (fst s), snd s) else s)"
| "step e (Ws_close i) s =
     (if is_live i (snd s) then
        snd (ws_onclose e (fst s,
               (snd s)\<lparr>sockets := (sockets (snd s))[i := (sockets (snd s) ! i)\<lparr>ws_live := False\<rparr>]\<rparr>))
      else s)"
| "step e Timer s = fire_timer e s"

definition steps :: "env \<Rightarrow> event list \<Rightarrow> ui \<times> world \<Rightarrow> ui \<times> world" where
  "steps e evs s = fold (step e) evs s"

section \<open>VettingPanel\<close>

text \<open>The state of the panel; \<open>setError(e.message)\<close> is kept as the error caught.\<close>

record panel =
  panel_data :: json
  panel_loading :: bool
  panel_error :: "js_error option"

definition loadData :: "env \<Rightarrow> string \<Rightarrow> panel \<times> world \<Rightarrow> panel \<times> world" where
  "loadData e jobId s =
     (let p = (fst s)\<lparr>panel_loading := True, panel_error := None\<rparr>;
          apiKey = or_default (getItem ''apiKey'' (snd s)) []
      in case fetch e \<lparr>req_url = api_base e @ ''/api/discoveries/'' @ jobId @ ''/vetting'',
                       req_method = ''GET'',
                       req_headers = [(''X-API-Key'', apiKey)],
                       req_body = None\<rparr> (snd s) of
           (Inl err, w) \<Rightarrow> (p\<lparr>panel_error := Some err, panel_loading := False\<rparr>, w)
         | (Inr resp, w) \<Rightarrow>
             if \<not> ok resp then
               (p\<lparr>panel_error := Some (Error (''HTTP '' @ dec (status resp) @ '': '' @ statusText resp)),
                  panel_loading := False\<rparr>, w)
             else (case json_of resp of
                     Inl err \<Rightarrow> (p\<lparr>panel_error := Some err, panel_loading := False\<rparr>, w)
                   | Inr j \<Rightarrow> (p\<lparr>panel_data := j, panel_loading := False\<rparr>, w)))"

section \<open>The panels that read \<open>run\<close>, \<open>run_a\<close>, \<open>run_b\<close>, \<open>star\<close> and \<open>phase\<close>\<close>














record workbench =
  star :: string
  phaseMode :: bool


section \<open>Vocabulary of the statements\<close>




section \<open>Concrete inputs\<close>

text \<open>Address bars: an empty query, a deep link to a phase-folded star, and a page
  whose path begins with two slashes.\<close>

definition b_empty :: browser where
  "b_empty = \<lparr>behind = [],
               current = \<lparr>host = ''localhost:5173'', pathname = ''/'', search = [], hash = []\<rparr>,
               ahead = []\<rparr>"

definition b_phase :: browser where
  "b_phase = \<lparr>behind = [],
               current = \<lparr>host = ''localhost:5173'', pathname = ''/'',
                          search = ''?star=TIC1&phase=true'', hash = []\<rparr>,
               ahead = []\<rparr>"

definition b_slashes :: browser where
  "b_slashes = \<lparr>behind = [],
                 current = \<lparr>host = ''localhost:5173'', pathname = ''//x/y'', search = [],
                            hash = []\<rparr>,
                 ahead = []\<rparr>"

text \<open>Worlds: nothing stored and nothing sent; a key saved by the settings bar; a log
  stream open; the poller running.\<close>

definition w_fresh :: world where
  "w_fresh = \<lparr>storage = Map.empty, sent = [], sockets = [], timer = None, console = []\<rparr>"

definition w_key :: world where
  "w_key = w_fresh\<lparr>storage := [''chiss_api_key'' \<mapsto> ''secret'']\<rparr>"

definition w_streaming :: world where
  "w_streaming =
     w_fresh\<lparr>sockets := [\<lparr>ws_url = ''ws://localhost:8001/api/jobs/A/logs'', ws_live = True\<rparr>]\<rparr>"

definition w_polling :: world where
  "w_polling = w_fresh\<lparr>timer := Some 2000\<rparr>"

text \<open>Backends, by what they answer.\<close>

definition answer :: "nat \<Rightarrow> json option \<Rightarrow> js_error + response" where
  "answer n j = Inr \<lparr>status = n, statusText = [], parsed = j\<rparr>"

definition job_A :: "string \<Rightarrow> json" where
  "job_A st = JObj [(''job_id'', JStr ''A''), (''job_type'', JStr ''multi-sector''),
                    (''state'', JStr st), (''artifacts_dir'', JStr ''runs/A'')]"

definition e_conflict :: env where
  "e_conflict = \<lparr>api_base = ''http://localhost:8001'',
     server = (\<lambda>h q. answer 409 (Some (JObj [(''detail'', JObj [(''job_id'', JStr ''J7'')])])))\<rparr>"

definition e_conflict_bare :: env where
  "e_conflict_bare = \<lparr>api_base = ''http://localhost:8001'',
     server = (\<lambda>h q. answer 409 (Some (JObj [(''detail'', JStr ''busy'')])))\<rparr>"

definition e_conflict_html :: env where
  "e_conflict_html = \<lparr>api_base = ''http://localhost:8001'', server = (\<lambda>h q. answer 409 None)\<rparr>"

definition e_down :: env where
  "e_down = \<lparr>api_base = ''http://localhost:8001'', server = (\<lambda>h q. answer 500 None)\<rparr>"

text \<open>A backend that starts every job, the first as \<open>A\<close> and the later ones as \<open>B\<close>,
  lists no job and reports an idle orchestrator.\<close>

definition e_accept :: env where
  "e_accept = \<lparr>api_base = ''http://localhost:8001'',
     server = (\<lambda>h q.
       if req_method q = ''POST''
       then answer 200 (Some (JObj [(''job_id'',
              JStr (if filter (\<lambda>r. req_method r = ''POST'') h = [] then ''A'' else ''B''))]))
       else if req_url q = ''http://localhost:8001/api/jobs''
       then answer 200 (Some (JObj [(''jobs'', JArr [])]))
       else answer 200 (Some (JObj [(''queue_depth'', JNum 0), (''running'', JArr []),
                                     (''concurrency'', JNum 2)])))\<rparr>"

definition e_listing :: env where
  "e_listing = \<lparr>api_base = ''http://localhost:8001'',
     server = (\<lambda>h q. answer 200 (Some (JObj [(''jobs'', JArr [job_A ''completed''])])))\<rparr>"

text \<open>A backend whose job list works and whose statistics endpoint does not.\<close>

definition e_stats_down :: env where
  "e_stats_down = \<lparr>api_base = ''http://localhost:8001'',
     server = (\<lambda>h q. if req_url q = ''http://localhost:8001/api/jobs''
                      then answer 200 (Some (JObj [(''jobs'', JArr [job_A ''running''])]))
                      else answer 503 None)\<rparr>"

text \<open>A backend that answers the job list with a body that has no \<open>jobs\<close>.\<close>

definition e_no_jobs :: env where
  "e_no_jobs = \<lparr>api_base = ''http://localhost:8001'',
     server = (\<lambda>h q. answer 200 (Some (JObj [(''detail'', JStr ''maintenance'')])))\<rparr>"

definition u_running :: ui where
  "u_running = initial_ui\<lparr>jobs := Some (JArr [job_A ''running'', JObj [(''job_id'', JStr ''Z'')]]),
                           logs := [''l1'']\<rparr>"

text \<open>The page once it is mounted: the first refresh has been sent and the timer runs.\<close>

definition page_loaded :: "env \<Rightarrow> ui \<times> world" where
  "page_loaded e = mount_poller e (initial_ui, w_fresh)"

text \<open>Two runs in a row, then lines from both streams; and a second run while the first
  stream is still delivering.\<close>

definition two_runs :: "event list" where
  "two_runs = [Click_run ''train-kepler-strict'' [], Click_run ''benchmarks-compare'' [],
               Ws_message 0 ''a1'', Ws_message 1 ''b1'', Ws_message 0 ''a2'']"



section \<open>Parsing a serialized query gives the query back\<close>

lemma hex_value_digit: "n < 16 \<Longrightarrow> hex_value (hex_digit n) = Some n"
  by (auto simp: hex_value_def hex_digit_def Let_def)

lemma hex_digit_plain:
  "n < 16 \<Longrightarrow> hex_digit n \<noteq> CHR ''&'' \<and> hex_digit n \<noteq> CHR ''='' \<and> hex_digit n \<noteq> CHR ''+''"
proof -
  assume "n < 16"
  then have "hex_value (hex_digit n) = Some n" by (rule hex_value_digit)
  moreover have "hex_value CHR ''&'' = None" "hex_value CHR ''='' = None"
    "hex_value CHR ''+'' = None"
    by (simp_all add: hex_value_def)
  ultimately show ?thesis by auto
qed

lemma form_safe_plain:
  "form_safe c \<Longrightarrow> c \<noteq> CHR ''&'' \<and> c \<noteq> CHR ''='' \<and> c \<noteq> CHR ''+'' \<and> c \<noteq> CHR ''%''"
  by (auto simp: form_safe_def Let_def)

lemma nibbles: "(of_char c :: nat) div 16 < 16" "(of_char c :: nat) mod 16 < 16"
  using nat_of_char_less_256 [of c] by presburger+

lemma form_encode_byte_plain:
  "CHR ''&'' \<notin> set (form_encode_byte c) \<and> CHR ''='' \<notin> set (form_encode_byte c)"
  using hex_digit_plain [OF nibbles(1), of c] hex_digit_plain [OF nibbles(2), of c]
    form_safe_plain [of c]
  by (auto simp: form_encode_byte_def)

lemma form_encode_plain:
  "CHR ''&'' \<notin> set (form_encode s) \<and> CHR ''='' \<notin> set (form_encode s)"
  by (induction s) (auto simp: form_encode_def form_encode_byte_plain)

lemma decode_encode_byte:
  "percent_decode (plus_to_space (form_encode_byte c @ s)) = c # percent_decode (plus_to_space s)"
proof -
  note lt = nibbles [of c]
  show ?thesis
    using hex_value_digit [OF lt(1)] hex_value_digit [OF lt(2)]
      hex_digit_plain [OF lt(1)] hex_digit_plain [OF lt(2)] form_safe_plain [of c]
    by (auto simp: form_encode_byte_def plus_to_space_def)
qed

lemma decode_encode: "percent_decode (plus_to_space (form_encode s)) = s"
proof (induction s)
  case Nil
  show ?case by (simp add: form_encode_def plus_to_space_def)
next
  case (Cons c s)
  have "form_encode (c # s) = form_encode_byte c @ form_encode s"
    by (simp add: form_encode_def)
  then show ?case using Cons by (simp add: decode_encode_byte)
qed

lemma parse_pair_encode: "parse_pair (form_encode n @ CHR ''='' # form_encode v) = (n, v)"
proof -
  have no_eq: "\<forall>c \<in> set (form_encode n). c \<noteq> CHR ''=''"
    using form_encode_plain [of n] by auto
  have "takeWhile (\<lambda>c. c \<noteq> CHR ''='') (form_encode n @ CHR ''='' # form_encode v) = form_encode n"
    using no_eq by (simp add: takeWhile_tail)
  moreover have "dropWhile (\<lambda>c. c \<noteq> CHR ''='') (form_encode n @ CHR ''='' # form_encode v)
      = CHR ''='' # form_encode v"
    using no_eq by (simp add: dropWhile_append3)
  ultimately show ?thesis by (simp add: parse_pair_def decode_encode)
qed

lemma split_on_none: "d \<notin> set s \<Longrightarrow> split_on d s = [s]"
  by (induction s) auto

lemma split_on_append: "d \<notin> set x \<Longrightarrow> split_on d (x @ d # s) = x # split_on d s"
  by (induction x) auto

lemma split_join:
  "\<forall>x \<in> set xs. d \<notin> set x \<Longrightarrow> xs \<noteq> [] \<Longrightarrow> split_on d (join_with d xs) = xs"
proof (induction d xs rule: join_with.induct)
  case (1 d) then show ?case by simp
next
  case (2 d x) then show ?case by (simp add: split_on_none)
next
  case (3 d x y ys)
  then show ?case by (simp add: split_on_append)
qed

lemma form_parse_toString: "form_parse (usp_toString qs) = qs"
proof (cases "qs = []")
  case True
  then show ?thesis by (simp add: form_parse_def usp_toString_def)
next
  case False
  let ?enc = "\<lambda>(n, v). form_encode n @ CHR ''='' # form_encode v"
  have plain: "\<forall>x \<in> set (map ?enc qs). CHR ''&'' \<notin> set x"
    using form_encode_plain by auto
  have ne: "\<forall>x \<in> set (map ?enc qs). x \<noteq> []" by auto
  have "split_on CHR ''&'' (usp_toString qs) = map ?enc qs"
    unfolding usp_toString_def using plain False by (intro split_join) auto
  moreover have "filter (\<lambda>b. b \<noteq> []) (map ?enc qs) = map ?enc qs"
    using ne by (simp add: filter_id_conv)
  moreover have "map parse_pair (map ?enc qs) = qs"
    by (induction qs) (auto simp: parse_pair_encode)
  ultimately show ?thesis by (simp add: form_parse_def)
qed

lemma usp_new_search_text: "usp_new (search_text (usp_toString qs)) = qs"
proof (cases "usp_toString qs = []")
  case True
  then have "form_parse [] = qs" using form_parse_toString [of qs] by simp
  then show ?thesis using True by (simp add: usp_new_def search_text_def)
next
  case False
  then show ?thesis by (simp add: usp_new_def search_text_def form_parse_toString)
qed

lemma map_of_usp_delete: "map_of (usp_delete k qs) k' = (if k' = k then None else map_of qs k')"
  by (induction qs) (auto simp: usp_delete_def)

lemma map_of_usp_set: "map_of (usp_set k v qs) k' = (if k' = k then Some v else map_of qs k')"
  by (induction qs) (auto simp: map_of_usp_delete)

section \<open>What the history interface accepts\<close>

lemma url_text_plain:
  "\<not> double_slash path \<Longrightarrow>
   url_text base path q fragment
     = Inr \<lparr>host = host base, pathname = path, search = search_text q, hash = fragment\<rparr>"
  by (simp add: url_text_def)

lemma url_text_cases:
  "url_text base path q fragment = Inl SecurityError
   \<or> (\<exists>p. url_text base path q fragment
          = Inr \<lparr>host = host base, pathname = p, search = search_text q, hash = fragment\<rparr>)"
proof (cases "double_slash path")
  case False
  then show ?thesis by (simp add: url_text_def)
next
  case True
  show ?thesis
  proof (cases "takeWhile (\<lambda>c. c \<noteq> CHR ''/'') (dropWhile (\<lambda>c. c = CHR ''/'') path) = host base")
    case True
    with \<open>double_slash path\<close> show ?thesis
      unfolding url_text_def Let_def by (intro disjI2) (simp del: dropWhile_eq_Nil_conv takeWhile_eq_all_conv)
  next
    case False
    with \<open>double_slash path\<close> show ?thesis
      unfolding url_text_def Let_def by simp
  qed
qed

lemma url_text_Inr:
  "url_text base path q fragment = Inr url \<Longrightarrow>
   host url = host base \<and> search url = search_text q \<and> hash url = fragment"
  using url_text_cases [of base path q fragment] by auto

lemma url_text_Inl:
  "url_text base path q fragment = Inl err \<Longrightarrow> err = SecurityError \<and> double_slash path"
  using url_text_cases [of base path q fragment]
  by (cases "double_slash path") (auto simp: url_text_def)

lemma setQuery_Inr:
  assumes "setQuery us b = Inr b'"
  shows "behind b' = current b # behind b" and "ahead b' = []"
    and "host (current b') = host (current b)" and "hash (current b') = hash (current b)"
    and "getQuery b' = fold apply_update us (getQuery b)"
proof -
  obtain url where u: "url_text (current b) (pathname (current b))
      (usp_toString (fold apply_update us (getQuery b))) (hash (current b)) = Inr url"
    and b': "b' = pushState url b"
    using assms by (auto simp: setQuery_def Let_def split: sum.splits)
  note p = url_text_Inr [OF u]
  show "behind b' = current b # behind b" "ahead b' = []" by (simp_all add: b' pushState_def)
  show "host (current b') = host (current b)" "hash (current b') = hash (current b)"
    using p by (simp_all add: b' pushState_def)
  show "getQuery b' = fold apply_update us (getQuery b)"
    using p by (simp add: b' getQuery_def pushState_def usp_new_search_text)
qed

lemma setQuery_Inl:
  "setQuery us b = Inl err \<Longrightarrow> err = SecurityError \<and> double_slash (pathname (current b))"
  by (auto simp: setQuery_def Let_def split: sum.splits dest: url_text_Inl)

lemma setQuery_plain:
  assumes "\<not> double_slash (pathname (current b))"
  shows "setQuery us b
     = Inr (pushState \<lparr>host = host (current b), pathname = pathname (current b),
                       search = search_text (usp_toString (fold apply_update us (getQuery b))),
                       hash = hash (current b)\<rparr> b)"
  using assms by (simp add: setQuery_def Let_def url_text_plain)



section \<open>Merging writes into the query\<close>






lemma getQuery_b_empty: "getQuery b_empty = []"
  by (simp add: getQuery_def b_empty_def usp_new_def form_parse_def)

lemma getQuery_b_phase: "getQuery b_phase = [(''star'', ''TIC1''), (''phase'', ''true'')]"
  by (simp add: getQuery_def b_phase_def usp_new_def form_parse_def parse_pair_def plus_to_space_def)


lemma setQuery_b_slashes: "setQuery us b_slashes = Inl SecurityError"
  by (simp add: setQuery_def Let_def url_text_def double_slash_def b_slashes_def)



section \<open>Writers of the history\<close>

lemma normalize_url_idle:
  "\<not> (or_default (getParam ''star'' b) [] \<noteq> [] \<and> getParam ''phase'' b = Some ''true'')
   \<Longrightarrow> normalize_url b = Inr b"
  by (auto simp: normalize_url_def Let_def)

lemma normalize_url_Inr:
  "normalize_url b = Inr b' \<Longrightarrow> behind b' = behind b \<and> ahead b' = ahead b"
  by (auto simp: normalize_url_def Let_def replaceState_def split: if_splits sum.splits)

lemma normalize_url_plain:
  assumes "or_default (getParam ''star'' b) [] \<noteq> [] \<and> getParam ''phase'' b = Some ''true''"
    and "\<not> double_slash (pathname (current b))"
  shows "\<exists>b'. normalize_url b = Inr b'
           \<and> getQuery b'
               = usp_set ''tab'' (or_default (getParam ''tab'' b) ''workbench'')
                   (usp_set ''phase'' ''true''
                     (usp_set ''star'' (or_default (getParam ''star'' b) []) (getQuery b)))"
  using assms
  by (simp add: normalize_url_def Let_def url_text_plain replaceState_def getQuery_def
      usp_new_search_text)

text \<open>
  C5 (as amended). A call of the store's \<open>setQuery\<close> that returns has pushed one new
  history entry: the entry it left is right behind the new one, nothing is ahead, host
  and fragment are kept, and the query is the old one with the updates merged in; it
  never replaces an entry. It returns on every page whose pathname does not begin with
  two slashes, and there the pathname is kept; where it does not return it has thrown
  \<open>SecurityError\<close>, on a pathname that begins with two slashes. The store is not the only
  writer: \<open>App\<close>'s own \<open>setQuery\<close> pushes an entry too, and the URL normalization on load
  never pushes: when \<open>star\<close> is set and \<open>phase=true\<close> it overwrites the current entry
  (adding \<open>tab=workbench\<close> if no tab is there), and otherwise it leaves the history as it
  is.
\<close>

theorem history_writes:
  "(setQuery us b = Inr b'
      \<longrightarrow> behind b' = current b # behind b \<and> ahead b' = []
          \<and> host (current b') = host (current b) \<and> hash (current b') = hash (current b)
          \<and> getQuery b' = fold apply_update us (getQuery b))
   \<and> (\<not> double_slash (pathname (current b))
      \<longrightarrow> (\<exists>b1. setQuery us b = Inr b1 \<and> pathname (current b1) = pathname (current b)))
   \<and> (setQuery us b = Inl err \<longrightarrow> err = SecurityError \<and> double_slash (pathname (current b)))
   \<and> behind (fst (App_setQuery ps (b, u))) = current b # behind b
   \<and> (normalize_url b = Inr b2 \<longrightarrow> behind b2 = behind b \<and> ahead b2 = ahead b)
   \<and> (\<not> (or_default (getParam ''star'' b) [] \<noteq> [] \<and> getParam ''phase'' b = Some ''true'')
        \<longrightarrow> normalize_url b = Inr b)
   \<and> (or_default (getParam ''star'' b) [] \<noteq> [] \<and> getParam ''phase'' b = Some ''true''
        \<and> \<not> double_slash (pathname (current b))
        \<longrightarrow> (\<exists>b3. normalize_url b = Inr b3
               \<and> getQuery b3
                   = usp_set ''tab'' (or_default (getParam ''tab'' b) ''workbench'')
                       (usp_set ''phase'' ''true''
                         (usp_set ''star'' (or_default (getParam ''star'' b) []) (getQuery b)))))"
proof (intro conjI impI)
  assume r: "setQuery us b = Inr b'"
  show "behind b' = current b # behind b" "ahead b' = []"
    "host (current b') = host (current b)" "hash (current b') = hash (current b)"
    "getQuery b' = fold apply_update us (getQuery b)"
    using setQuery_Inr [OF r] by simp_all
next
  assume p: "\<not> double_slash (pathname (current b))"
  show "\<exists>b1. setQuery us b = Inr b1 \<and> pathname (current b1) = pathname (current b)"
    by (simp add: setQuery_plain [OF p] pushState_def)
next
  assume "setQuery us b = Inl err"
  then show "err = SecurityError" "double_slash (pathname (current b))"
    using setQuery_Inl by blast+
next
  show "behind (fst (App_setQuery ps (b, u))) = current b # behind b"
    by (simp add: App_setQuery_def Let_def pushState_def)
next
  assume "normalize_url b = Inr b2"
  then show "behind b2 = behind b" "ahead b2 = ahead b"
    using normalize_url_Inr by blast+
next
  assume "\<not> (or_default (getParam ''star'' b) [] \<noteq> [] \<and> getParam ''phase'' b = Some ''true'')"
  then show "normalize_url b = Inr b" by (rule normalize_url_idle)
next
  assume "or_default (getParam ''star'' b) [] \<noteq> [] \<and> getParam ''phase'' b = Some ''true''
        \<and> \<not> double_slash (pathname (current b))"
  then show "\<exists>b3. normalize_url b = Inr b3
               \<and> getQuery b3
                   = usp_set ''tab'' (or_default (getParam ''tab'' b) ''workbench'')
                       (usp_set ''phase'' ''true''
                         (usp_set ''star'' (or_default (getParam ''star'' b) []) (getQuery b)))"
    using normalize_url_plain by blast
qed

lemma plain_b_empty: "\<not> double_slash (pathname (current b_empty))"
  by (simp add: double_slash_def b_empty_def)

lemma behind_b_empty: "behind b_empty = []"
  by (simp add: b_empty_def)

lemma plain_b_phase: "\<not> double_slash (pathname (current b_phase))"
  by (simp add: double_slash_def b_phase_def)

lemma normalize_url_b_phase:
  "normalize_url b_phase
     = Inr \<lparr>behind = [],
            current = \<lparr>host = ''localhost:5173'', pathname = ''/'',
                       search = ''?star=TIC1&phase=true&tab=workbench'', hash = []\<rparr>,
            ahead = []\<rparr>"
  by code_simp

theorem history_writes_witness:
  "(\<exists>b1. setQuery [(''tab'', Some ''compare'')] b_empty = Inr b1
          \<and> behind b1 = [current b_empty] \<and> getQuery b1 = [(''tab'', ''compare'')])
   \<and> setQuery [(''tab'', Some ''compare'')] b_slashes = Inl SecurityError
   \<and> normalize_url b_empty = Inr b_empty
   \<and> (\<exists>b3. normalize_url b_phase = Inr b3 \<and> behind b3 = behind b_phase
          \<and> getQuery b3 = [(''star'', ''TIC1''), (''phase'', ''true''), (''tab'', ''workbench'')])"
proof -
  let ?us = "[(''tab'', Some ''compare'')]"
  obtain b1 where b1: "setQuery ?us b_empty = Inr b1"
    using history_writes [where b = b_empty and us = ?us, THEN conjunct2, THEN conjunct1]
      plain_b_empty by blast
  have 1: "behind b1 = [current b_empty] \<and> getQuery b1 = [(''tab'', ''compare'')]"
    using history_writes [where b = b_empty and us = ?us and b' = b1, THEN conjunct1] b1
    by (simp add: getQuery_b_empty apply_update_def behind_b_empty)
  have 2: "setQuery ?us b_slashes = Inl SecurityError" by (rule setQuery_b_slashes)
  have s: "or_default (getParam ''star'' b_empty) [] = []"
    by (simp add: getParam_def getQuery_b_empty usp_get_def or_default_def)
  have 3: "normalize_url b_empty = Inr b_empty"
    using history_writes [where b = b_empty] s by simp
  have h: "or_default (getParam ''star'' b_phase) [] \<noteq> [] \<and> getParam ''phase'' b_phase = Some ''true''"
    by (simp add: getParam_def getQuery_b_phase usp_get_def or_default_def)
  obtain b3 where b3: "normalize_url b_phase = Inr b3"
    and q: "getQuery b3 = usp_set ''tab'' (or_default (getParam ''tab'' b_phase) ''workbench'')
                       (usp_set ''phase'' ''true''
                         (usp_set ''star'' (or_default (getParam ''star'' b_phase) [])
                            (getQuery b_phase)))"
    using history_writes [where b = b_phase] h plain_b_phase by blast
  have 4: "behind b3 = behind b_phase"
    using history_writes [where b = b_phase and ?b2.0 = b3] b3 by simp
  have 5: "getQuery b3 = [(''star'', ''TIC1''), (''phase'', ''true''), (''tab'', ''workbench'')]"
    using q by (simp add: getParam_def getQuery_b_phase usp_get_def or_default_def usp_delete_def)
  show ?thesis using b1 1 2 3 b3 4 5 by blast
qed

text \<open>
  The claim as stated fails on the deep link \<open>?star=TIC1&phase=true\<close>: the normalization
  changes the address bar, and the history has the one entry it had.
\<close>

theorem history_replaced_counterexample:
  "b_phase = \<lparr>behind = [],
              current = \<lparr>host = ''localhost:5173'', pathname = ''/'',
                         search = ''?star=TIC1&phase=true'', hash = []\<rparr>,
              ahead = []\<rparr>
   \<and> normalize_url b_phase
       = Inr \<lparr>behind = [],
              current = \<lparr>host = ''localhost:5173'', pathname = ''/'',
                         search = ''?star=TIC1&phase=true&tab=workbench'', hash = []\<rparr>,
              ahead = []\<rparr>"
  by (simp add: normalize_url_b_phase) (simp add: b_phase_def)

section \<open>What an absent key resolves to\<close>

lemma getParam_cases: "or_default (getParam k b) [] = [] \<longleftrightarrow> getParam k b = None \<or> getParam k b = Some []"
  by (auto simp: or_default_def split: option.splits)









section \<open>The log buffer is a sliding window\<close>

lemma window_step:
  "0 < c \<Longrightarrow>
   drop (Suc (length (drop (length xs - c) xs)) - c) (drop (length xs - c) xs @ [l])
     = drop (Suc (length xs) - c) (xs @ [l])"
  by (cases "length xs \<le> c") (auto simp: Suc_diff_le)

lemma onmessage_drop: "onmessage prev data = drop (Suc (length prev) - 2000) (prev @ [data])"
proof -
  have "nat (max (int (Suc (length prev)) - 2000) 0) = Suc (length prev) - 2000"
    by linarith
  then show ?thesis
    by (simp add: onmessage_def js_slice_def Let_def)
qed

lemma deliver_drop:
  "deliver (drop (length prev - 2000) prev) lines
     = drop (length (prev @ lines) - 2000) (prev @ lines)"
proof (induction lines rule: rev_induct)
  case Nil
  show ?case by (simp add: deliver_def)
next
  case (snoc l ls)
  have "deliver (drop (length prev - 2000) prev) (ls @ [l])
      = onmessage (deliver (drop (length prev - 2000) prev) ls) l"
    by (simp add: deliver_def)
  also have "\<dots> = onmessage (drop (length (prev @ ls) - 2000) (prev @ ls)) l"
    by (simp only: snoc.IH)
  also have "\<dots> = drop (Suc (length (prev @ ls)) - 2000) ((prev @ ls) @ [l])"
    unfolding onmessage_drop by (rule window_step) simp
  finally show ?case by simp
qed


section \<open>The job client: conflicts, failures, credentials\<close>

lemma snd_fetch: "snd (fetch e req w) = w\<lparr>sent := sent w @ [req]\<rparr>"
  by (simp add: fetch_def)

lemma snd_apiFetch: "snd (apiFetch e url i w) = w\<lparr>sent := sent w @ [api_request url i w]\<rparr>"
  by (simp add: apiFetch_def snd_fetch)

lemma apiFetch_answer:
  "server e = (\<lambda>h q. answer n j) \<Longrightarrow>
   apiFetch e url i w
     = (Inr \<lparr>status = n, statusText = [], parsed = j\<rparr>,
        w\<lparr>sent := sent w @ [api_request url i w]\<rparr>)"
  by (simp add: apiFetch_def fetch_def answer_def)

lemma apiFetch_sockets: "apiFetch e url i w = (res, w') \<Longrightarrow> sockets w' = sockets w"
  using snd_apiFetch [of e url i w] by simp

lemma snd_startJob:
  "snd (startJob e job_type params w)
     = snd (apiFetch e (api_base e @ ''/api/jobs'') (startJob_init job_type params) w)"
  by (simp add: startJob_def split: prod.splits sum.splits)

lemma snd_listJobs: "snd (listJobs e w) = snd (apiFetch e (api_base e @ ''/api/jobs'') no_init w)"
  by (simp add: listJobs_def split: prod.splits sum.splits)

lemma snd_orchStats:
  "snd (orchStats e w) = snd (apiFetch e (api_base e @ ''/api/orchestrator/stats'') no_init w)"
  by (simp add: orchStats_def split: prod.splits sum.splits)

lemma startJob_conflict:
  assumes "apiFetch e (api_base e @ ''/api/jobs'') (startJob_init job_type params) w = (Inr r, w')"
    and "status r = 409" and "parsed r = Some body"
  shows "startJob e job_type params w =
     (Inl (Error (''Duplicate running job (id=''
        @ template (js_or (opt_prop (opt_prop (Some body) ''detail'') ''job_id'') (Some (JStr ''?'')))
        @ '')'')), w')"
  using assms by (simp add: startJob_def json_of_def)

lemma startJob_conflict_unparsed:
  assumes "apiFetch e (api_base e @ ''/api/jobs'') (startJob_init job_type params) w = (Inr r, w')"
    and "status r = 409" and "parsed r = None"
  shows "startJob e job_type params w = (Inl SyntaxError, w')"
  using assms by (simp add: startJob_def json_of_def)

lemma startJob_failed:
  assumes "apiFetch e (api_base e @ ''/api/jobs'') (startJob_init job_type params) w = (Inr r, w')"
    and "status r \<noteq> 409" and "\<not> ok r"
  shows "startJob e job_type params w = (Inl (Error (''startJob failed: '' @ dec (status r))), w')"
  using assms by (simp add: startJob_def)

lemma run_rejected:
  "startJob e job_type params w = (Inl err, w') \<Longrightarrow> run e job_type params (u, w) = (Inl err, u, w')"
  by (simp add: run_def)

text \<open>
  C3. Duplicate-job conflict. When the response to \<open>startJob\<close> has status 409 and its
  body carries the id of the running job (\<open>detail.job_id\<close>, a non-empty string),
  \<open>startJob\<close> rejects with the error \<open>Duplicate running job (id=\<dots>)\<close> that carries this
  id, and \<open>run\<close> rejects with it before \<open>setActive\<close>: the state of \<open>App\<close> is what it
  was and no socket is opened. On every other status outside 200..299 \<open>startJob\<close> rejects
  with \<open>startJob failed: \<close> followed by the status. The two messages never coincide,
  and the id can be read back from the first.
\<close>

theorem duplicate_job_conflict:
  assumes "apiFetch e (api_base e @ ''/api/jobs'') (startJob_init job_type params) w = (Inr r, w')"
  shows "(status r = 409 \<and> parsed r = Some body
            \<and> opt_prop (opt_prop (Some body) ''detail'') ''job_id'' = Some (JStr jid) \<and> jid \<noteq> []
          \<longrightarrow> startJob e job_type params w
                = (Inl (Error (''Duplicate running job (id='' @ jid @ '')'')), w')
              \<and> run e job_type params (u, w)
                = (Inl (Error (''Duplicate running job (id='' @ jid @ '')'')), u, w')
              \<and> sockets w' = sockets w)
       \<and> (status r \<noteq> 409 \<and> \<not> ok r
          \<longrightarrow> startJob e job_type params w
                = (Inl (Error (''startJob failed: '' @ dec (status r))), w'))
       \<and> ''Duplicate running job (id='' @ jid @ '')'' \<noteq> ''startJob failed: '' @ dec n
       \<and> (''Duplicate running job (id='' @ jid @ '')'' = ''Duplicate running job (id='' @ jid' @ '')''
          \<longrightarrow> jid = jid')"
proof (intro conjI impI)
  assume h: "status r = 409 \<and> parsed r = Some body
            \<and> opt_prop (opt_prop (Some body) ''detail'') ''job_id'' = Some (JStr jid) \<and> jid \<noteq> []"
  then show sj: "startJob e job_type params w
                = (Inl (Error (''Duplicate running job (id='' @ jid @ '')'')), w')"
    using startJob_conflict [OF assms, of body] by (simp add: js_or_def template_def)
  then show "run e job_type params (u, w)
                = (Inl (Error (''Duplicate running job (id='' @ jid @ '')'')), u, w')"
    by (rule run_rejected)
  show "sockets w' = sockets w" using assms by (rule apiFetch_sockets)
next
  assume "status r \<noteq> 409 \<and> \<not> ok r"
  then show "startJob e job_type params w
                = (Inl (Error (''startJob failed: '' @ dec (status r))), w')"
    using startJob_failed [OF assms] by simp
next
  show "''Duplicate running job (id='' @ jid @ '')'' \<noteq> ''startJob failed: '' @ dec n"
    by simp
next
  assume "''Duplicate running job (id='' @ jid @ '')'' = ''Duplicate running job (id='' @ jid' @ '')''"
  then show "jid = jid'" by simp
qed

theorem duplicate_job_conflict_witness:
  "run e_conflict ''train-kepler-strict'' [] (initial_ui, w_fresh)
     = (Inl (Error ''Duplicate running job (id=J7)''), initial_ui,
        w_fresh\<lparr>sent := sent w_fresh @
            [api_request (api_base e_conflict @ ''/api/jobs'')
               (startJob_init ''train-kepler-strict'' []) w_fresh]\<rparr>)
   \<and> fst (startJob e_down ''train-kepler-strict'' [] w_fresh) = Inl (Error ''startJob failed: 500'')"
proof -
  have a: "server e_conflict
             = (\<lambda>h q. answer 409 (Some (JObj [(''detail'', JObj [(''job_id'', JStr ''J7'')])])))"
    by (simp add: e_conflict_def)
  have b: "server e_down = (\<lambda>h q. answer 500 None)"
    by (simp add: e_down_def)
  have d: "dec 500 = ''500''" by code_simp
  show ?thesis
    using duplicate_job_conflict [OF apiFetch_answer [OF a],
        where job_type = "''train-kepler-strict''" and params = "[]" and w = w_fresh
          and body = "JObj [(''detail'', JObj [(''job_id'', JStr ''J7'')])]"
          and jid = "''J7''" and u = initial_ui and n = 0 and jid' = "''J7''"]
      duplicate_job_conflict [OF apiFetch_answer [OF b],
        where job_type = "''train-kepler-strict''" and params = "[]" and w = w_fresh
          and body = JNull and jid = "''J7''" and u = initial_ui and n = 0 and jid' = "''J7''"] d
    by (simp add: ok_def)
qed

text \<open>
  C10. The body of a 409. When the response to \<open>startJob\<close> has status 409 and its body is
  JSON, \<open>startJob\<close> rejects with the duplicate-job error whatever the body holds: with the
  text of \<open>detail.job_id\<close> when that is there and truthy, with the placeholder \<open>?\<close> when
  it is missing (or falsy). When the body is not JSON, \<open>startJob\<close> rejects with the error
  of \<open>r.json()\<close> instead.
\<close>

theorem conflict_body_edge_cases:
  assumes "apiFetch e (api_base e @ ''/api/jobs'') (startJob_init job_type params) w = (Inr r, w')"
    and "status r = 409"
  shows "(parsed r = Some body \<longrightarrow>
            startJob e job_type params w
              = (Inl (Error (''Duplicate running job (id=''
                   @ (if truthy (opt_prop (opt_prop (Some body) ''detail'') ''job_id'')
                      then template (opt_prop (opt_prop (Some body) ''detail'') ''job_id'')
                      else ''?'')
                   @ '')'')), w'))
       \<and> (parsed r = None \<longrightarrow> startJob e job_type params w = (Inl SyntaxError, w'))"
  using startJob_conflict [OF assms, of body] startJob_conflict_unparsed [OF assms]
  by (simp add: js_or_def template_def)

theorem conflict_body_edge_cases_witness:
  "fst (startJob e_conflict_bare ''multi-sector'' [(''tic'', ''307210830'')] w_fresh)
     = Inl (Error ''Duplicate running job (id=?)'')
   \<and> fst (startJob e_conflict_html ''multi-sector'' [(''tic'', ''307210830'')] w_fresh)
     = Inl SyntaxError"
proof -
  have a: "server e_conflict_bare = (\<lambda>h q. answer 409 (Some (JObj [(''detail'', JStr ''busy'')])))"
    by (simp add: e_conflict_bare_def)
  have b: "server e_conflict_html = (\<lambda>h q. answer 409 None)"
    by (simp add: e_conflict_html_def)
  show ?thesis
    using conflict_body_edge_cases [OF apiFetch_answer [OF a],
        where job_type = "''multi-sector''" and params = "[(''tic'', ''307210830'')]"
          and w = w_fresh and body = "JObj [(''detail'', JStr ''busy'')]"]
      conflict_body_edge_cases [OF apiFetch_answer [OF b],
        where job_type = "''multi-sector''" and params = "[(''tic'', ''307210830'')]"
          and w = w_fresh and body = JNull]
    by simp
qed

text \<open>What \<open>apiFetch\<close> does with the credential: the header carries the key stored under
  \<open>chiss_api_key\<close>, and is left out when nothing (or the empty string) is stored.\<close>

lemma api_request_credential:
  "map_of (init_headers i) ''X-API-Key'' = None \<Longrightarrow>
   map_of (req_headers (api_request url i w)) ''X-API-Key''
     = (case getItem ''chiss_api_key'' w of
          None \<Rightarrow> None
        | Some k \<Rightarrow> (if k = [] then None else Some k))"
  by (auto simp: api_request_def Let_def or_default_def headers_set_def map_of_usp_set
      split: option.splits)

text \<open>
  C8, at the failing input. With the key \<open>secret\<close> stored under \<open>chiss_api_key\<close>, where
  the settings bar saves it, a request of \<open>apiFetch\<close> carries \<open>X-API-Key: secret\<close>, and
  the request of \<open>VettingPanel.loadData\<close>, which reads the key \<open>apiKey\<close>, carries the
  header with an empty value.
\<close>

theorem vetting_request_misses_credential:
  "getItem ''chiss_api_key'' w_key = Some ''secret''
   \<and> map_of (req_headers (last (sent (snd (apiFetch e_down ''http://localhost:8001/api/jobs''
          no_init w_key))))) ''X-API-Key''
       = Some ''secret''
   \<and> map_of (req_headers (last (sent (snd (loadData e_down ''J1''
          (\<lparr>panel_data = JNull, panel_loading = True, panel_error = None\<rparr>, w_key))))))
        ''X-API-Key''
       = Some []"
  by (simp add: loadData_def Let_def fetch_def apiFetch_def api_request_def getItem_def w_key_def
      w_fresh_def or_default_def headers_set_def no_init_def e_down_def answer_def ok_def)

section \<open>The page: runs, streams, the poller\<close>

lemma listJobs_world:
  "snd (listJobs e w) = w\<lparr>sent := sent w @ [api_request (api_base e @ ''/api/jobs'') no_init w]\<rparr>"
  by (simp add: snd_listJobs snd_apiFetch)

lemma orchStats_world:
  "snd (orchStats e w)
     = w\<lparr>sent := sent w @ [api_request (api_base e @ ''/api/orchestrator/stats'') no_init w]\<rparr>"
  by (simp add: snd_orchStats snd_apiFetch)

lemma startJob_world:
  "snd (startJob e job_type params w)
     = w\<lparr>sent := sent w @ [api_request (api_base e @ ''/api/jobs'') (startJob_init job_type params) w]\<rparr>"
  by (simp add: snd_startJob snd_apiFetch)

lemma api_request_sockets: "api_request url i (w\<lparr>sockets := x\<rparr>) = api_request url i w"
  by (simp add: api_request_def getItem_def)

lemma listJobs_sockets: "fst (listJobs e (w\<lparr>sockets := x\<rparr>)) = fst (listJobs e w)"
  by (simp add: listJobs_def apiFetch_def fetch_def api_request_sockets split: sum.splits)

lemma refresh_world: "snd (snd (refresh e (u, w))) = snd (listJobs e w)"
  by (simp add: refresh_def split: prod.splits sum.splits)

lemma refresh_ui:
  "fst (snd (refresh e (u, w)))
     = (case fst (listJobs e w) of Inl err \<Rightarrow> u | Inr js \<Rightarrow> u\<lparr>jobs := js\<rparr>)"
  by (simp add: refresh_def split: prod.splits sum.splits)

lemma tick_rejected:
  "listJobs e w = (Inl err, w1) \<Longrightarrow> tick e (u, w) = (Inl err, u, w1)"
  by (simp add: tick_def refresh_def)

lemma tick_stats_failed:
  "listJobs e w = (Inr js, w1) \<Longrightarrow> orchStats e w1 = (Inl err, w2) \<Longrightarrow>
   tick e (u, w) = (Inr (), u\<lparr>jobs := js\<rparr>, w2)"
  by (simp add: tick_def refresh_def)

lemma tick_both:
  "listJobs e w = (Inr js, w1) \<Longrightarrow> orchStats e w1 = (Inr st, w2) \<Longrightarrow>
   tick e (u, w) = (Inr (), u\<lparr>jobs := js, stats := st\<rparr>, w2)"
  by (simp add: tick_def refresh_def)

text \<open>A tick sends requests and touches nothing else of the world.\<close>

lemma tick_frame:
  "timer (snd (snd (tick e (u, w)))) = timer w \<and> console (snd (snd (tick e (u, w)))) = console w
   \<and> sockets (snd (snd (tick e (u, w)))) = sockets w \<and> storage (snd (snd (tick e (u, w)))) = storage w"
proof -
  obtain r1 w1 where l: "listJobs e w = (r1, w1)" by (cases "listJobs e w")
  then have w1: "w1 = w\<lparr>sent := sent w @ [api_request (api_base e @ ''/api/jobs'') no_init w]\<rparr>"
    using listJobs_world [of e w] by simp
  show ?thesis
  proof (cases r1)
    case (Inl err)
    then show ?thesis using tick_rejected [of e w err w1 u] l w1 by simp
  next
    case (Inr js)
    obtain r2 w2 where o: "orchStats e w1 = (r2, w2)" by (cases "orchStats e w1")
    then have w2: "w2 = w1\<lparr>sent := sent w1 @
        [api_request (api_base e @ ''/api/orchestrator/stats'') no_init w1]\<rparr>"
      using orchStats_world [of e w1] by simp
    show ?thesis
    proof (cases r2)
      case (Inl err)
      then show ?thesis using tick_stats_failed [of e w js w1 err w2 u] l o Inr w1 w2 by simp
    next
      case (Inr st)
      then show ?thesis using tick_both [of e w js w1 st w2 u] l o \<open>r1 = Inr js\<close> w1 w2 by simp
    qed
  qed
qed

lemma tick_ui:
  "logs (fst (snd (tick e (u, w)))) = logs u \<and> active (fst (snd (tick e (u, w)))) = active u
   \<and> tab (fst (snd (tick e (u, w)))) = tab u"
proof -
  obtain r1 w1 where l: "listJobs e w = (r1, w1)" by (cases "listJobs e w")
  show ?thesis
  proof (cases r1)
    case (Inl err)
    then show ?thesis using tick_rejected [of e w err w1 u] l by simp
  next
    case (Inr js)
    obtain r2 w2 where o: "orchStats e w1 = (r2, w2)" by (cases "orchStats e w1")
    show ?thesis
    proof (cases r2)
      case (Inl err)
      then show ?thesis using tick_stats_failed [of e w js w1 err w2 u] l o Inr by simp
    next
      case (Inr st)
      then show ?thesis using tick_both [of e w js w1 st w2 u] l o \<open>r1 = Inr js\<close> by simp
    qed
  qed
qed

text \<open>A firing of the timer leaves the sockets, the storage and the buffer alone; the
  timer it leaves depends on the renders alone.\<close>

lemma fire_timer_frame:
  "sockets (snd (fire_timer e s)) = sockets (snd s) \<and> storage (snd (fire_timer e s)) = storage (snd s)
   \<and> logs (fst (fire_timer e s)) = logs (fst s)"
proof -
  obtain u w where s: "s = (u, w)" by (cases s)
  obtain r u' w' where t: "tick e (u, w) = (r, u', w')" by (cases "tick e (u, w)")
  then have f: "sockets w' = sockets w" "storage w' = storage w" "logs u' = logs u"
    using tick_frame [of e u w] tick_ui [of e u w] by simp_all
  show ?thesis using t f s
    by (cases r; cases "tick_render e (u, w)")
       (simp_all add: fire_timer_def crash_def unmount_poller_def)
qed

lemma fire_timer_timer:
  "mounted (snd s) \<Longrightarrow>
   timer (snd (fire_timer e s))
     = (case tick_render e s of Inl err \<Rightarrow> None | Inr x \<Rightarrow> timer (snd s))"
proof -
  assume m: "mounted (snd s)"
  obtain u w where s: "s = (u, w)" by (cases s)
  obtain r u' w' where t: "tick e (u, w) = (r, u', w')" by (cases "tick e (u, w)")
  then have f: "timer w' = timer w" using tick_frame [of e u w] by simp
  show ?thesis using t f s m
    by (cases r; cases "tick_render e (u, w)")
       (simp_all add: fire_timer_def crash_def unmount_poller_def)
qed

lemma tick_render_rejected: "listJobs e w = (Inl err, w1) \<Longrightarrow> tick_render e (u, w) = Inr ()"
  by (simp add: tick_render_def refresh_def)

lemma tick_render_stats_failed:
  "listJobs e w = (Inr js, w1) \<Longrightarrow> orchStats e w1 = (Inl err, w2) \<Longrightarrow>
   tick_render e (u, w) = render (u\<lparr>jobs := js\<rparr>)"
  by (cases "render (u\<lparr>jobs := js\<rparr>)") (simp_all add: tick_render_def refresh_def)

lemma run_sockets:
  "run e job_type params (u, w) = (res, u', w') \<Longrightarrow>
   sockets w' =
     (case res of
        Inl err \<Rightarrow> sockets w
      | Inr _ \<Rightarrow> sockets w @
          [\<lparr>ws_url = replace_first ''http'' ''ws'' (api_base e) @ ''/api/jobs/''
                       @ template (opt_prop (Some (active u')) ''job_id'') @ ''/logs'',
            ws_live = True\<rparr>])"
proof -
  assume r: "run e job_type params (u, w) = (res, u', w')"
  obtain r1 w1 where sj: "startJob e job_type params w = (r1, w1)"
    by (cases "startJob e job_type params w")
  then have w1: "sockets w1 = sockets w" using startJob_world [of e job_type params w] by simp
  show ?thesis
  proof (cases r1)
    case (Inl err)
    then show ?thesis using r sj w1 by (auto simp: run_def)
  next
    case (Inr j)
    then show ?thesis using r sj w1
      by (cases j) (auto simp: run_def Let_def logsSocket_def)
  qed
qed

lemma run_logs:
  "run e job_type params (u, w) = (Inr x, u', w') \<Longrightarrow> logs u' = []"
  by (auto simp: run_def Let_def split: prod.splits sum.splits)

text \<open>Only the close of its own stream ends a connection.\<close>

lemma step_keeps_live:
  assumes "is_live i (snd s)" and "ev \<noteq> Ws_close i"
  shows "is_live i (snd (step e ev s))"
proof -
  obtain u w where s: "s = (u, w)" by (cases s)
  show ?thesis
  proof (cases ev)
    case (Click_run job_type params)
    obtain res u' w' where r: "run e job_type params (u, w) = (res, u', w')"
      by (cases "run e job_type params (u, w)")
    from run_sockets [OF r] assms(1) s have "is_live i w'"
      by (cases res) (auto simp: is_live_def nth_append)
    then show ?thesis using Click_run r s by simp
  next
    case (Ws_message j d)
    then show ?thesis using assms(1) by simp
  next
    case (Ws_close j)
    then have ji: "j \<noteq> i" using assms(2) by auto
    let ?w0 = "w\<lparr>sockets := (sockets w)[j := (sockets w ! j)\<lparr>ws_live := False\<rparr>]\<rparr>"
    have "is_live i ?w0" using assms(1) s ji by (simp add: is_live_def)
    moreover have "sockets (snd (snd (refresh e (u, ?w0)))) = sockets ?w0"
      by (simp add: refresh_world listJobs_world)
    ultimately have "is_live i (snd (snd (refresh e (u, ?w0))))"
      by (simp add: is_live_def)
    then show ?thesis using Ws_close s assms(1) by (simp add: ws_onclose_def)
  next
    case Timer
    then show ?thesis using assms(1) fire_timer_frame [of e s] by (simp add: is_live_def)
  qed
qed


lemma run_timer: "run e job_type params (u, w) = (res, u', w') \<Longrightarrow> timer w' = timer w"
proof -
  assume r: "run e job_type params (u, w) = (res, u', w')"
  obtain r1 w1 where sj: "startJob e job_type params w = (r1, w1)"
    by (cases "startJob e job_type params w")
  then have w1: "timer w1 = timer w" using startJob_world [of e job_type params w] by simp
  show ?thesis
  proof (cases r1)
    case (Inl err)
    then show ?thesis using r sj w1 by (auto simp: run_def)
  next
    case (Inr j)
    then show ?thesis using r sj w1
      by (cases j) (auto simp: run_def Let_def logsSocket_def)
  qed
qed


text \<open>Messages of live connections, whichever they are, go to the one buffer in the
  order of their arrival.\<close>

lemma steps_messages:
  "\<forall>m \<in> set ms. is_live (fst m) w \<Longrightarrow>
   steps e (map (\<lambda>m. Ws_message (fst m) (snd m)) ms) (u, w)
     = (u\<lparr>logs := deliver (logs u) (map snd ms)\<rparr>, w)"
proof (induction ms arbitrary: u)
  case Nil
  show ?case by (simp add: steps_def deliver_def)
next
  case (Cons m ms)
  have "steps e (map (\<lambda>m. Ws_message (fst m) (snd m)) (m # ms)) (u, w)
      = steps e (map (\<lambda>m. Ws_message (fst m) (snd m)) ms) (ws_onmessage (snd m) u, w)"
    using Cons.prems by (simp add: steps_def)
  also have "\<dots> = ((ws_onmessage (snd m) u)\<lparr>logs := deliver (logs (ws_onmessage (snd m) u)) (map snd ms)\<rparr>, w)"
    using Cons.prems by (intro Cons.IH) simp
  finally show ?case by (simp add: ws_onmessage_def deliver_def)
qed

lemma deliver_capped:
  "length prev \<le> 2000 \<Longrightarrow>
   deliver prev lines = drop (length (prev @ lines) - 2000) (prev @ lines)"
  using deliver_drop [of prev lines] by simp

lemma page_loaded_accept:
  "page_loaded e_accept
     = (initial_ui\<lparr>jobs := Some (JArr [])\<rparr>,
        w_fresh\<lparr>sent := [api_request ''http://localhost:8001/api/jobs'' no_init w_fresh],
                timer := Some 2000\<rparr>)"
  by (simp add: page_loaded_def mount_poller_def refresh_def listJobs_def apiFetch_def fetch_def
      api_request_def Let_def e_accept_def answer_def ok_def json_of_def w_fresh_def initial_ui_def
      getItem_def or_default_def no_init_def render_def stats_throws_def jobs_throws_def
      stats_children_ok_def jobs_children_ok_def)

text \<open>
  C4 (as amended). Nothing in the page closes a log connection: a connection that is
  live stays live through every event but the close of its own stream, a further run
  included. Each run that succeeds opens one more connection and empties the buffer. So
  several connections can be live at once, and while the page is mounted the lines they
  deliver are all appended to the one buffer, in the order of their arrival, whichever
  connection each comes from (the buffer keeping the last 2000).
\<close>

theorem connections_outlive_runs:
  "(is_live i (snd s) \<and> ev \<noteq> Ws_close i \<longrightarrow> is_live i (snd (step e ev s)))
   \<and> (run e job_type params (u, w) = (Inr x, u', w')
        \<longrightarrow> length (live_sockets w') = length (live_sockets w) + 1 \<and> logs u' = [])
   \<and> (mounted w \<and> (\<forall>m \<in> set ms. is_live (fst m) w) \<and> length (logs u) \<le> 2000
        \<longrightarrow> logs (fst (steps e (map (\<lambda>m. Ws_message (fst m) (snd m)) ms) (u, w)))
             = drop (length (logs u @ map snd ms) - 2000) (logs u @ map snd ms))"
proof (intro conjI impI)
  assume "is_live i (snd s) \<and> ev \<noteq> Ws_close i"
  then show "is_live i (snd (step e ev s))" using step_keeps_live by blast
next
  assume r: "run e job_type params (u, w) = (Inr x, u', w')"
  from run_sockets [OF r] show "length (live_sockets w') = length (live_sockets w) + 1"
    by (simp add: live_sockets_def)
  from r show "logs u' = []" by (rule run_logs)
next
  assume "mounted w \<and> (\<forall>m \<in> set ms. is_live (fst m) w) \<and> length (logs u) \<le> 2000"
  then show "logs (fst (steps e (map (\<lambda>m. Ws_message (fst m) (snd m)) ms) (u, w)))
             = drop (length (logs u @ map snd ms) - 2000) (logs u @ map snd ms)"
    by (simp add: steps_messages deliver_capped)
qed

lemma two_clicks:
  "steps e_accept [Click_run ''train-kepler-strict'' [], Click_run ''benchmarks-compare'' []]
     (page_loaded e_accept)
   = (initial_ui\<lparr>jobs := Some (JArr []), active := JObj [(''job_id'', JStr ''B'')]\<rparr>,
      w_fresh\<lparr>sent := [api_request ''http://localhost:8001/api/jobs'' no_init w_fresh,
                        api_request ''http://localhost:8001/api/jobs''
                          (startJob_init ''train-kepler-strict'' []) w_fresh,
                        api_request ''http://localhost:8001/api/jobs''
                          (startJob_init ''benchmarks-compare'' []) w_fresh],
              sockets := [\<lparr>ws_url = ''ws://localhost:8001/api/jobs/A/logs'', ws_live = True\<rparr>,
                          \<lparr>ws_url = ''ws://localhost:8001/api/jobs/B/logs'', ws_live = True\<rparr>],
              timer := Some 2000\<rparr>)"
  unfolding page_loaded_accept
  by (simp add: steps_def run_def startJob_def apiFetch_def fetch_def
      api_request_def Let_def startJob_init_def e_accept_def answer_def ok_def json_of_def
      w_fresh_def initial_ui_def getItem_def or_default_def no_init_def logsSocket_def template_def)

theorem connections_outlive_runs_witness:
  "is_live 0 (snd (steps e_accept [Click_run ''train-kepler-strict'' []] (page_loaded e_accept)))
   \<and> is_live 0 (snd (steps e_accept [Click_run ''train-kepler-strict'' [],
                                       Click_run ''benchmarks-compare'' []] (page_loaded e_accept)))
   \<and> length (live_sockets (snd (steps e_accept [Click_run ''train-kepler-strict'' [],
         Click_run ''benchmarks-compare'' []] (page_loaded e_accept)))) = 2
   \<and> logs (fst (steps e_accept
         (map (\<lambda>m. Ws_message (fst m) (snd m)) [(0, ''a1''), (1, ''b1''), (0, ''a2'')])
         (steps e_accept [Click_run ''train-kepler-strict'' [], Click_run ''benchmarks-compare'' []]
            (page_loaded e_accept))))
       = [''a1'', ''b1'', ''a2'']"
proof -
  let ?s1 = "steps e_accept [Click_run ''train-kepler-strict'' []] (page_loaded e_accept)"
  let ?s2 = "steps e_accept [Click_run ''train-kepler-strict'' [],
                             Click_run ''benchmarks-compare'' []] (page_loaded e_accept)"
  have s1: "?s1 = (initial_ui\<lparr>jobs := Some (JArr []), active := JObj [(''job_id'', JStr ''A'')]\<rparr>,
      w_fresh\<lparr>sent := [api_request ''http://localhost:8001/api/jobs'' no_init w_fresh,
                        api_request ''http://localhost:8001/api/jobs''
                          (startJob_init ''train-kepler-strict'' []) w_fresh],
              sockets := [\<lparr>ws_url = ''ws://localhost:8001/api/jobs/A/logs'', ws_live = True\<rparr>],
              timer := Some 2000\<rparr>)"
    unfolding page_loaded_accept
  by (simp add: steps_def run_def startJob_def apiFetch_def fetch_def
      api_request_def Let_def startJob_init_def e_accept_def answer_def ok_def json_of_def
      w_fresh_def initial_ui_def getItem_def or_default_def no_init_def logsSocket_def template_def)
  have s2: "?s2 = step e_accept (Click_run ''benchmarks-compare'' []) ?s1"
    by (simp add: steps_def)
  have l1: "is_live 0 (snd ?s1)" "length (live_sockets (snd ?s1)) = 1"
    unfolding s1 by (simp_all add: is_live_def live_sockets_def)
  have l2: "is_live 0 (snd ?s2)"
    using connections_outlive_runs [where i = 0 and s = "?s1"
        and ev = "Click_run ''benchmarks-compare'' []" and e = e_accept, THEN conjunct1] l1(1)
    unfolding s2 by simp
  obtain x u' w' where r: "run e_accept ''benchmarks-compare'' [] (fst ?s1, snd ?s1) = (Inr x, u', w')"
    and s2': "?s2 = (u', w')"
    unfolding two_clicks s1
    by (simp add: run_def startJob_def apiFetch_def fetch_def
      api_request_def Let_def startJob_init_def e_accept_def answer_def ok_def json_of_def
      w_fresh_def initial_ui_def getItem_def or_default_def no_init_def logsSocket_def template_def)
  have n: "length (live_sockets (snd ?s2)) = 2"
    using connections_outlive_runs [where e = e_accept and job_type = "''benchmarks-compare''"
        and params = "[]" and u = "fst ?s1" and w = "snd ?s1" and x = x and u' = u' and w' = w',
        THEN conjunct2, THEN conjunct1] r l1(2) s2'
    by simp
  have pre: "mounted (snd ?s2)" "\<forall>m \<in> set [(0, ''a1''), (1, ''b1''), (0::nat, ''a2'')]. is_live (fst m) (snd ?s2)"
    "length (logs (fst ?s2)) \<le> 2000"
    unfolding two_clicks by (simp_all add: mounted_def is_live_def initial_ui_def)
  have b: "logs (fst (steps e_accept
         (map (\<lambda>m. Ws_message (fst m) (snd m)) [(0, ''a1''), (1, ''b1''), (0, ''a2'')]) ?s2))
       = [''a1'', ''b1'', ''a2'']"
    using connections_outlive_runs [where e = e_accept and u = "fst ?s2" and w = "snd ?s2"
        and ms = "[(0, ''a1''), (1, ''b1''), (0, ''a2'')]",
        THEN conjunct2, THEN conjunct2] pre
    unfolding two_clicks by (simp add: initial_ui_def)
  show ?thesis using l1(1) l2 n b by simp
qed

text \<open>
  The claim as stated fails on the mounted page after two runs in a row: both
  connections are live, and the buffer holds the lines of job \<open>A\<close> and of job \<open>B\<close>
  interleaved.
\<close>

theorem two_live_connections_counterexample:
  "map ws_url (live_sockets (snd (steps e_accept two_runs (page_loaded e_accept))))
     = [''ws://localhost:8001/api/jobs/A/logs'', ''ws://localhost:8001/api/jobs/B/logs'']
   \<and> logs (fst (steps e_accept two_runs (page_loaded e_accept))) = [''a1'', ''b1'', ''a2'']"
  unfolding page_loaded_accept
  by (simp add: steps_def two_runs_def run_def startJob_def apiFetch_def
      fetch_def api_request_def Let_def startJob_init_def e_accept_def answer_def ok_def
      json_of_def w_fresh_def initial_ui_def getItem_def or_default_def no_init_def
      logsSocket_def template_def is_live_def live_sockets_def ws_onmessage_def onmessage_drop)








text \<open>
  C6. Reconciliation when the stream closes. The close of a live log stream sends exactly
  one request, the \<open>GET\<close> of the job list. When that fetch succeeds the job list of the
  page becomes the list fetched, whatever it held before, and nothing else of the page's
  state changes; when it fails the state is left as it was. The connection is no longer
  live.
\<close>

theorem stream_close_reconciles:
  assumes "is_live i w"
  shows "sent (snd (step e (Ws_close i) (u, w)))
           = sent w @ [api_request (api_base e @ ''/api/jobs'') no_init w]
       \<and> req_url (api_request (api_base e @ ''/api/jobs'') no_init w) = api_base e @ ''/api/jobs''
       \<and> req_method (api_request (api_base e @ ''/api/jobs'') no_init w) = ''GET''
       \<and> fst (step e (Ws_close i) (u, w))
           = (case fst (listJobs e w) of Inr js \<Rightarrow> u\<lparr>jobs := js\<rparr> | Inl err \<Rightarrow> u)
       \<and> \<not> is_live i (snd (step e (Ws_close i) (u, w)))"
proof -
  have "sent (snd (step e (Ws_close i) (u, w)))
           = sent w @ [api_request (api_base e @ ''/api/jobs'') no_init w]"
    using assms
    by (simp add: ws_onclose_def refresh_world listJobs_world api_request_sockets)
  moreover have "fst (step e (Ws_close i) (u, w))
           = (case fst (listJobs e w) of Inr js \<Rightarrow> u\<lparr>jobs := js\<rparr> | Inl err \<Rightarrow> u)"
    using assms
    by (simp add: ws_onclose_def refresh_ui listJobs_sockets split: sum.splits)
  moreover have "\<not> is_live i (snd (step e (Ws_close i) (u, w)))"
    using assms by (simp add: ws_onclose_def refresh_world listJobs_world is_live_def)
  ultimately show ?thesis by (simp add: api_request_def Let_def no_init_def)
qed

lemma listJobs_listing:
  "fst (listJobs e_listing w_streaming) = Inr (Some (JArr [job_A ''completed'']))"
  by (simp add: listJobs_def apiFetch_def fetch_def e_listing_def answer_def ok_def json_of_def)

theorem stream_close_reconciles_witness:
  "is_live 0 w_streaming
   \<and> length (sent (snd (step e_listing (Ws_close 0) (u_running, w_streaming)))) = 1
   \<and> fst (step e_listing (Ws_close 0) (u_running, w_streaming))
       = u_running\<lparr>jobs := Some (JArr [job_A ''completed''])\<rparr>"
proof -
  have l: "is_live 0 w_streaming" by (simp add: is_live_def w_streaming_def)
  have s: "sent w_streaming = []" by (simp add: w_streaming_def w_fresh_def)
  show ?thesis
    using stream_close_reconciles [OF l, of e_listing u_running] l
    by (simp add: listJobs_listing s del: step.simps)
qed

lemma step_timer:
  "timer (snd (step e ev s)) = timer (snd s) \<or> timer (snd (step e ev s)) = None"
proof -
  obtain u w where s: "s = (u, w)" by (cases s)
  show ?thesis
  proof (cases ev)
    case (Click_run job_type params)
    obtain res u' w' where r: "run e job_type params (u, w) = (res, u', w')"
      by (cases "run e job_type params (u, w)")
    then show ?thesis using run_timer [OF r] Click_run s by simp
  next
    case (Ws_message j d)
    then show ?thesis by simp
  next
    case (Ws_close j)
    then show ?thesis using s by (simp add: ws_onclose_def refresh_world listJobs_world)
  next
    case Timer
    show ?thesis
    proof (cases "mounted (snd s)")
      case True
      then show ?thesis using fire_timer_timer [of s e] Timer by (simp split: sum.splits)
    next
      case False
      then show ?thesis using Timer by (simp add: fire_timer_def)
    qed
  qed
qed

lemma fold_step_timer:
  "timer (snd s) = Some 2000 \<or> timer (snd s) = None \<Longrightarrow>
   timer (snd (fold (step e) evs s)) = Some 2000 \<or> timer (snd (fold (step e) evs s)) = None"
proof (induction evs arbitrary: s)
  case Nil
  then show ?case by simp
next
  case (Cons ev evs)
  have "timer (snd (step e ev s)) = Some 2000 \<or> timer (snd (step e ev s)) = None"
    using Cons.prems step_timer [of e ev s] by auto
  then show ?case using Cons.IH [of "step e ev s"] by simp
qed

lemma mount_poller_timer:
  "timer (snd (mount_poller e s)) = Some 2000 \<or> timer (snd (mount_poller e s)) = None"
  by (simp add: mount_poller_def crash_def unmount_poller_def split: prod.splits sum.splits)

text \<open>
  C7 (as amended). Outcomes of a poll tick. A failure of the statistics fetch is swallowed
  without a trace: the tick resolves, with the job list it has just fetched in place. A
  failure of the job-list fetch is not caught: the promise of the tick rejects with it,
  the statistics are not requested in that tick, and nothing is rendered. The tick itself
  never writes to the console. The timer is set to the constant 2000 ms or cleared, in
  every state the page reaches: it never backs off. A tick of the mounted page leaves the
  timer as it is, so that the later ticks fire, exactly when the renders it causes do not
  throw, which is so when the job list could not be fetched; a render that throws (on a
  body without \<open>jobs\<close>, say) unmounts the page, which clears the timer for good.
\<close>

theorem poll_tick_outcomes:
  "(listJobs e w = (Inr js, w1) \<and> orchStats e w1 = (Inl err, w2)
      \<longrightarrow> tick e (u, w) = (Inr (), u\<lparr>jobs := js\<rparr>, w2)
          \<and> tick_render e (u, w) = render (u\<lparr>jobs := js\<rparr>))
   \<and> (listJobs e w = (Inl err, w1)
      \<longrightarrow> tick e (u, w) = (Inl err, u, w1)
          \<and> sent w1 = sent w @ [api_request (api_base e @ ''/api/jobs'') no_init w]
          \<and> tick_render e (u, w) = Inr ())
   \<and> console (snd (snd (tick e (u, w)))) = console w
   \<and> (timer (snd (steps e evs (page_loaded e))) = Some 2000
        \<or> timer (snd (steps e evs (page_loaded e))) = None)
   \<and> (mounted (snd s) \<and> tick_render e s = Inr ()
        \<longrightarrow> timer (snd (fire_timer e s)) = timer (snd s))
   \<and> (mounted (snd s) \<and> tick_render e s = Inl err
        \<longrightarrow> timer (snd (fire_timer e s)) = None)
   \<and> (timer (snd s) = None \<longrightarrow> fire_timer e s = s)"
proof (intro conjI impI)
  assume a: "listJobs e w = (Inr js, w1) \<and> orchStats e w1 = (Inl err, w2)"
  then show "tick e (u, w) = (Inr (), u\<lparr>jobs := js\<rparr>, w2)"
    using tick_stats_failed by blast
  from a show "tick_render e (u, w) = render (u\<lparr>jobs := js\<rparr>)"
    using tick_render_stats_failed by blast
next
  assume l: "listJobs e w = (Inl err, w1)"
  then show "tick e (u, w) = (Inl err, u, w1)" by (rule tick_rejected)
  from l show "sent w1 = sent w @ [api_request (api_base e @ ''/api/jobs'') no_init w]"
    using listJobs_world [of e w] by simp
  from l show "tick_render e (u, w) = Inr ()" by (rule tick_render_rejected)
next
  show "console (snd (snd (tick e (u, w)))) = console w" by (simp add: tick_frame)
next
  have "timer (snd (page_loaded e)) = Some 2000 \<or> timer (snd (page_loaded e)) = None"
    unfolding page_loaded_def by (rule mount_poller_timer)
  then show "timer (snd (steps e evs (page_loaded e))) = Some 2000
        \<or> timer (snd (steps e evs (page_loaded e))) = None"
    unfolding steps_def by (rule fold_step_timer)
next
  assume "mounted (snd s) \<and> tick_render e s = Inr ()"
  then show "timer (snd (fire_timer e s)) = timer (snd s)"
    using fire_timer_timer [of s e] by simp
next
  assume "mounted (snd s) \<and> tick_render e s = Inl err"
  then show "timer (snd (fire_timer e s)) = None"
    using fire_timer_timer [of s e] by simp
next
  assume "timer (snd s) = None"
  then show "fire_timer e s = s" by (simp add: fire_timer_def mounted_def)
qed

lemma listJobs_stats_down:
  "listJobs e_stats_down w_polling
     = (Inr (Some (JArr [job_A ''running''])), snd (listJobs e_stats_down w_polling))"
  by (simp add: listJobs_def apiFetch_def fetch_def api_request_def Let_def e_stats_down_def
      answer_def ok_def json_of_def no_init_def)

lemma orchStats_stats_down:
  "orchStats e_stats_down (snd (listJobs e_stats_down w_polling))
     = (Inl (Error ''stats failed''),
        snd (orchStats e_stats_down (snd (listJobs e_stats_down w_polling))))"
  by (simp add: orchStats_def apiFetch_def fetch_def api_request_def Let_def e_stats_down_def
      answer_def ok_def no_init_def)

lemma listJobs_down:
  "listJobs e_down w_polling = (Inl (Error ''listJobs failed''), snd (listJobs e_down w_polling))"
  by (simp add: listJobs_def apiFetch_def fetch_def e_down_def answer_def ok_def)

lemma render_job_A: "render (initial_ui\<lparr>jobs := Some (JArr [job_A ''running''])\<rparr>) = Inr ()"
  by (simp add: render_def initial_ui_def job_A_def stats_throws_def jobs_throws_def
      stats_children_ok_def jobs_children_ok_def row_throws_def row_children_ok_def
      child_ok_def)

lemma tick_render_no_jobs: "tick_render e_no_jobs (initial_ui, w_polling) = Inl TypeError"
  by (simp add: tick_render_def refresh_def listJobs_def apiFetch_def fetch_def api_request_def
      Let_def e_no_jobs_def answer_def ok_def json_of_def no_init_def render_def jobs_throws_def
      initial_ui_def)

theorem poll_tick_outcomes_witness:
  "tick e_stats_down (initial_ui, w_polling)
     = (Inr (), initial_ui\<lparr>jobs := Some (JArr [job_A ''running''])\<rparr>,
        snd (orchStats e_stats_down (snd (listJobs e_stats_down w_polling))))
   \<and> timer (snd (fire_timer e_stats_down (initial_ui, w_polling))) = Some 2000
   \<and> tick e_down (initial_ui, w_polling)
     = (Inl (Error ''listJobs failed''), initial_ui, snd (listJobs e_down w_polling))
   \<and> timer (snd (fire_timer e_down (initial_ui, w_polling))) = Some 2000
   \<and> timer (snd (fire_timer e_no_jobs (initial_ui, w_polling))) = None
   \<and> fire_timer e_listing (initial_ui, w_fresh) = (initial_ui, w_fresh)"
proof -
  note t1 = poll_tick_outcomes [where e = e_stats_down and w = w_polling
      and js = "Some (JArr [job_A ''running''])" and ?w1.0 = "snd (listJobs e_stats_down w_polling)"
      and err = "Error ''stats failed''"
      and ?w2.0 = "snd (orchStats e_stats_down (snd (listJobs e_stats_down w_polling)))"
      and u = initial_ui and evs = "[]" and s = "(initial_ui, w_polling)"]
  note t2 = poll_tick_outcomes [where e = e_down and w = w_polling
      and js = None and ?w1.0 = "snd (listJobs e_down w_polling)"
      and err = "Error ''listJobs failed''" and ?w2.0 = w_polling
      and u = initial_ui and evs = "[]" and s = "(initial_ui, w_polling)"]
  note t3 = poll_tick_outcomes [where e = e_no_jobs and w = w_polling
      and js = None and ?w1.0 = w_polling and err = TypeError and ?w2.0 = w_polling
      and u = initial_ui and evs = "[]" and s = "(initial_ui, w_polling)"]
  note t4 = poll_tick_outcomes [where e = e_listing and w = w_fresh
      and js = None and ?w1.0 = w_fresh and err = TypeError and ?w2.0 = w_fresh
      and u = initial_ui and evs = "[]" and s = "(initial_ui, w_fresh)"]
  have m: "mounted (snd (initial_ui, w_polling))" "timer (snd (initial_ui, w_polling)) = Some 2000"
    "timer (snd (initial_ui, w_fresh)) = None"
    by (simp_all add: mounted_def w_polling_def w_fresh_def)
  have a: "tick e_stats_down (initial_ui, w_polling)
     = (Inr (), initial_ui\<lparr>jobs := Some (JArr [job_A ''running''])\<rparr>,
        snd (orchStats e_stats_down (snd (listJobs e_stats_down w_polling))))"
    and a': "tick_render e_stats_down (initial_ui, w_polling) = Inr ()"
    using t1 [THEN conjunct1] listJobs_stats_down orchStats_stats_down render_job_A by simp_all
  have b: "timer (snd (fire_timer e_stats_down (initial_ui, w_polling))) = Some 2000"
    using t1 [THEN conjunct2, THEN conjunct2, THEN conjunct2, THEN conjunct2, THEN conjunct1]
      m(1,2) a' by simp
  have c: "tick e_down (initial_ui, w_polling)
     = (Inl (Error ''listJobs failed''), initial_ui, snd (listJobs e_down w_polling))"
    and c': "tick_render e_down (initial_ui, w_polling) = Inr ()"
    using t2 [THEN conjunct2, THEN conjunct1] listJobs_down by simp_all
  have d: "timer (snd (fire_timer e_down (initial_ui, w_polling))) = Some 2000"
    using t2 [THEN conjunct2, THEN conjunct2, THEN conjunct2, THEN conjunct2, THEN conjunct1]
      m(1,2) c' by simp
  have f: "timer (snd (fire_timer e_no_jobs (initial_ui, w_polling))) = None"
    using t3 [THEN conjunct2, THEN conjunct2, THEN conjunct2, THEN conjunct2, THEN conjunct2,
        THEN conjunct1] m(1) tick_render_no_jobs by simp
  have g: "fire_timer e_listing (initial_ui, w_fresh) = (initial_ui, w_fresh)"
    using t4 [THEN conjunct2, THEN conjunct2, THEN conjunct2, THEN conjunct2, THEN conjunct2,
        THEN conjunct2] m(3) by simp
  show ?thesis using a b c d f g by simp
qed

text \<open>
  The claim as stated fails both ways: with the backend down the error leaves the tick
  uncaught after a single request; with only the statistics endpoint down the error is
  swallowed and the console stays empty.
\<close>

theorem tick_errors_counterexample:
  "fst (tick e_down (initial_ui, w_polling)) = Inl (Error ''listJobs failed'')
   \<and> map req_url (sent (snd (snd (tick e_down (initial_ui, w_polling)))))
       = [''http://localhost:8001/api/jobs'']
   \<and> fst (orchStats e_stats_down (snd (listJobs e_stats_down w_polling))) = Inl (Error ''stats failed'')
   \<and> fst (tick e_stats_down (initial_ui, w_polling)) = Inr ()
   \<and> console (snd (fire_timer e_stats_down (initial_ui, w_polling))) = []"
  by (simp add: tick_def refresh_def listJobs_def orchStats_def apiFetch_def fetch_def api_request_def
      Let_def e_down_def e_stats_down_def answer_def ok_def json_of_def w_polling_def w_fresh_def
      getItem_def or_default_def no_init_def fire_timer_def job_A_def mounted_def tick_render_def
      render_def stats_throws_def jobs_throws_def stats_children_ok_def jobs_children_ok_def
      row_throws_def row_children_ok_def child_ok_def initial_ui_def)

end
